theory Spec2Isabelle
  imports Complex_Main "HOL-Library.Word" "HOL-Library.Multiset"
begin

unbundle bit_operations_syntax

section \<open>N-body simulation kernels\<close>

text \<open>
  The development follows the CUDA source of the N-body engine function by function.
  Conventions of the embedding:
  \<^item> a \<^verbatim>\<open>float\<close> is a \<^typ>\<open>real\<close>: arithmetic is exact, so rounding, overflow
    to infinity and NaN are outside this model. The force evaluator is embedded a
    second time over floats with infinities and NaN, where a division by zero and an
    overflow show, and the two embeddings are proved to agree as long as nothing
    overflows;
  \<^item> \<^verbatim>\<open>unsigned int\<close> is \<^typ>\<open>32 word\<close>;
  \<^item> a device array is a list; the body count and thread indices are naturals, so
    the index arithmetic of the kernels is taken not to overflow \<^verbatim>\<open>int\<close>;
  \<^item> a kernel is the function one thread runs, and a launch folds that function over
    the thread indices of the grid. No thread of these kernels reads a cell another
    thread writes, which the schedule lemmas below make precise;
  \<^item> the macros \<^verbatim>\<open>G\<close> and \<^verbatim>\<open>EPSILON\<close> come from a header that is not part of
    the sources at hand; they are parameters of every function that uses them.
\<close>

subsection \<open>Vectors\<close>

datatype vec3 = Vec3 (vx: real) (vy: real) (vz: real)

instantiation vec3 :: ab_group_add
begin

definition zero_vec3 :: vec3 where
  "zero_vec3 = Vec3 0 0 0"

definition plus_vec3 :: "vec3 \<Rightarrow> vec3 \<Rightarrow> vec3" where
  "plus_vec3 a b = Vec3 (vx a + vx b) (vy a + vy b) (vz a + vz b)"

definition minus_vec3 :: "vec3 \<Rightarrow> vec3 \<Rightarrow> vec3" where
  "minus_vec3 a b = Vec3 (vx a - vx b) (vy a - vy b) (vz a - vz b)"

definition uminus_vec3 :: "vec3 \<Rightarrow> vec3" where
  "uminus_vec3 a = Vec3 (- vx a) (- vy a) (- vz a)"

instance
  by standard (simp_all add: zero_vec3_def plus_vec3_def minus_vec3_def uminus_vec3_def)

end

text \<open>Scalar times vector and vector over scalar, componentwise as in glm.\<close>

definition smult :: "real \<Rightarrow> vec3 \<Rightarrow> vec3" where
  "smult k v = Vec3 (k * vx v) (k * vy v) (k * vz v)"

definition vscale :: "vec3 \<Rightarrow> real \<Rightarrow> vec3" where
  "vscale v k = Vec3 (vx v * k) (vy v * k) (vz v * k)"

definition sdiv :: "vec3 \<Rightarrow> real \<Rightarrow> vec3" where
  "sdiv v k = Vec3 (vx v / k) (vy v / k) (vz v / k)"

definition glm_dot :: "vec3 \<Rightarrow> vec3 \<Rightarrow> real" where
  "glm_dot a b = vx a * vx b + vy a * vy b + vz a * vz b"

definition glm_length :: "vec3 \<Rightarrow> real" where
  "glm_length v = sqrt (glm_dot v v)"

definition glm_distance :: "vec3 \<Rightarrow> vec3 \<Rightarrow> real" where
  "glm_distance p0 p1 = glm_length (p1 - p0)"

text \<open>
  \<^verbatim>\<open>glm::normalize(v)\<close> is \<^verbatim>\<open>v * inversesqrt(dot(v, v))\<close>. On the zero vector the
  source multiplies zero by infinity and returns NaN in every component (lemma
  \<open>glm_normalize_x_zero\<close>, on the embedding with infinities and NaN below). A real
  cannot be NaN, and the quotient by zero here is HOL's, so \<open>glm_normalize\<close> stands for
  the source on non-zero vectors only. Each theorem that goes through it is about
  such vectors: \<open>accelOne\<close> calls it under the guard, where the vector is proved
  non-zero, and the theorem on \<open>circularVel\<close> assumes a position off the vertical
  axis.
\<close>

definition glm_normalize :: "vec3 \<Rightarrow> vec3" where
  "glm_normalize v = smult (1 / sqrt (glm_dot v v)) v"

definition glm_cross :: "vec3 \<Rightarrow> vec3 \<Rightarrow> vec3" where
  "glm_cross a b =
     Vec3 (vy a * vz b - vy b * vz a)
          (vz a * vx b - vz b * vx a)
          (vx a * vy b - vx b * vy a)"

subsection \<open>Configuration\<close>

definition blockSize :: nat where
  "blockSize = 128"

definition planetMass :: real where
  "planetMass = 300000000"

definition starMass :: real where
  "starMass = 50000000000"

definition scene_scale :: real where
  "scene_scale = 100"

subsection \<open>Force evaluation\<close>

definition accelOne :: "real \<Rightarrow> vec3 \<Rightarrow> vec3 \<Rightarrow> real \<Rightarrow> vec3" where
  "accelOne G planet other mass =
     (let num = G * mass;
          r = glm_distance planet other;
          denom = r * r
      in if denom > 1 / 10
         then (let dir = glm_normalize (other - planet)
               in smult (1 * (num / denom)) dir)
         else Vec3 0 0 0)"

text \<open>
  The loop \<^verbatim>\<open>for (int i = 0; i < N; i++) totalAccel += accelOne(planet, pos[i], planetMass)\<close>
  of \<^verbatim>\<open>accelerate\<close>, with the counter and the accumulator as arguments.
\<close>

function accelerate_loop :: "real \<Rightarrow> nat \<Rightarrow> vec3 \<Rightarrow> vec3 list \<Rightarrow> nat \<Rightarrow> vec3 \<Rightarrow> vec3" where
  "accelerate_loop G N planet pos i totalAccel =
     (if i < N
      then accelerate_loop G N planet pos (i + 1)
             (totalAccel + accelOne G planet (pos ! i) planetMass)
      else totalAccel)"
  by pat_completeness auto
termination
  by (relation "measure (\<lambda>(G, N, planet, pos, i, totalAccel). N - i)") auto

declare accelerate_loop.simps [simp del]

definition accelerate :: "real \<Rightarrow> nat \<Rightarrow> nat \<Rightarrow> vec3 list \<Rightarrow> vec3" where
  "accelerate G N iSelf pos =
     (let planet = pos ! iSelf;
          totalAccel = accelOne G planet (Vec3 0 0 0) starMass
      in accelerate_loop G N planet pos 0 totalAccel)"

subsection \<open>Force evaluation over floats with infinities and NaN\<close>

text \<open>
  Exact reals cannot show a division by zero or an overflow. For the question whether
  an acceleration is finite, the force evaluator is embedded a second time over values
  that are a finite real, an infinity or NaN, with the special-value rules of IEEE 754:
  a result beyond \<open>FLT_MAX\<close> in magnitude is an infinity, a finite non-zero value over
  zero is an infinity, and \<open>0/0\<close>, \<open>inf - inf\<close>, \<open>0 * inf\<close>, \<open>inf/inf\<close> and the square root
  of a negative value are NaN; every comparison with NaN is false. Rounding within the
  finite range and the sign of zero are still not modelled. The functions carry the
  names of the source with the suffix \<open>_x\<close>.
\<close>

datatype xfloat = Fin real | PInf | NInf | NaN

definition FLT_MAX :: real where
  "FLT_MAX = 340282346638528859811704183484516925440"

definition overflow :: "real \<Rightarrow> xfloat" where
  "overflow r = (if FLT_MAX < r then PInf else if r < - FLT_MAX then NInf else Fin r)"

definition signed_inf :: "bool \<Rightarrow> xfloat" where
  "signed_inf negative = (if negative then NInf else PInf)"

fun xadd :: "xfloat \<Rightarrow> xfloat \<Rightarrow> xfloat" where
  "xadd (Fin a) (Fin b) = overflow (a + b)"
| "xadd (Fin a) PInf = PInf"
| "xadd (Fin a) NInf = NInf"
| "xadd (Fin a) NaN = NaN"
| "xadd PInf (Fin b) = PInf"
| "xadd PInf PInf = PInf"
| "xadd PInf NInf = NaN"
| "xadd PInf NaN = NaN"
| "xadd NInf (Fin b) = NInf"
| "xadd NInf PInf = NaN"
| "xadd NInf NInf = NInf"
| "xadd NInf NaN = NaN"
| "xadd NaN b = NaN"



fun xmul :: "xfloat \<Rightarrow> xfloat \<Rightarrow> xfloat" where
  "xmul (Fin a) (Fin b) = overflow (a * b)"
| "xmul (Fin a) PInf = (if a = 0 then NaN else signed_inf (a < 0))"
| "xmul (Fin a) NInf = (if a = 0 then NaN else signed_inf (0 < a))"
| "xmul (Fin a) NaN = NaN"
| "xmul PInf (Fin b) = (if b = 0 then NaN else signed_inf (b < 0))"
| "xmul PInf PInf = PInf"
| "xmul PInf NInf = NInf"
| "xmul PInf NaN = NaN"
| "xmul NInf (Fin b) = (if b = 0 then NaN else signed_inf (0 < b))"
| "xmul NInf PInf = NInf"
| "xmul NInf NInf = PInf"
| "xmul NInf NaN = NaN"
| "xmul NaN b = NaN"

fun xdiv :: "xfloat \<Rightarrow> xfloat \<Rightarrow> xfloat" where
  "xdiv (Fin a) (Fin b) =
     (if b = 0 then (if a = 0 then NaN else signed_inf (a < 0)) else overflow (a / b))"
| "xdiv (Fin a) PInf = Fin 0"
| "xdiv (Fin a) NInf = Fin 0"
| "xdiv (Fin a) NaN = NaN"
| "xdiv PInf (Fin b) = signed_inf (b < 0)"
| "xdiv PInf PInf = NaN"
| "xdiv PInf NInf = NaN"
| "xdiv PInf NaN = NaN"
| "xdiv NInf (Fin b) = signed_inf (\<not> b < 0)"
| "xdiv NInf PInf = NaN"
| "xdiv NInf NInf = NaN"
| "xdiv NInf NaN = NaN"
| "xdiv NaN b = NaN"

fun xsqrt :: "xfloat \<Rightarrow> xfloat" where
  "xsqrt (Fin a) = (if a < 0 then NaN else Fin (sqrt a))"
| "xsqrt PInf = PInf"
| "xsqrt NInf = NaN"
| "xsqrt NaN = NaN"



datatype xvec3 = XVec3 (xx: xfloat) (xy: xfloat) (xz: xfloat)




definition xvscale :: "xvec3 \<Rightarrow> xfloat \<Rightarrow> xvec3" where
  "xvscale v k = XVec3 (xmul (xx v) k) (xmul (xy v) k) (xmul (xz v) k)"

definition glm_dot_x :: "xvec3 \<Rightarrow> xvec3 \<Rightarrow> xfloat" where
  "glm_dot_x a b = xadd (xadd (xmul (xx a) (xx b)) (xmul (xy a) (xy b))) (xmul (xz a) (xz b))"



definition glm_inversesqrt_x :: "xfloat \<Rightarrow> xfloat" where
  "glm_inversesqrt_x a = xdiv (Fin 1) (xsqrt a)"

definition glm_normalize_x :: "xvec3 \<Rightarrow> xvec3" where
  "glm_normalize_x v = xvscale v (glm_inversesqrt_x (glm_dot_x v v))"


text \<open>A vector of reals as a vector of finite floats, and a bound on its components.\<close>

definition fin_vec :: "vec3 \<Rightarrow> xvec3" where
  "fin_vec v = XVec3 (Fin (vx v)) (Fin (vy v)) (Fin (vz v))"






subsection \<open>Kernel launches and device errors\<close>

text \<open>
  A launch \<^verbatim>\<open>kern<<<grid, block>>>(...)\<close> runs the thread function once for every thread
  index \<^verbatim>\<open>blockIdx.x * blockDim.x + threadIdx.x\<close>, that is for every index below
  \<open>grid * block\<close>. \<open>launch_sched\<close> runs the threads in a given order, \<open>launch\<close> in
  ascending order.
\<close>

definition launch_sched :: "nat list \<Rightarrow> (nat \<Rightarrow> 'm \<Rightarrow> 'm) \<Rightarrow> 'm \<Rightarrow> 'm" where
  "launch_sched sched kern m = fold kern sched m"

definition launch :: "nat \<Rightarrow> nat \<Rightarrow> (nat \<Rightarrow> 'm \<Rightarrow> 'm) \<Rightarrow> 'm \<Rightarrow> 'm" where
  "launch grid block kern m = launch_sched [0..<grid * block] kern m"

text \<open>
  The device is the environment of the host functions: \<open>cuda_fails msg\<close> tells whether
  \<^verbatim>\<open>cudaGetLastError\<close> reports an error at the check that carries the message \<open>msg\<close>,
  and \<open>junk k i\<close> is the content of cell \<open>i\<close> of the \<open>k\<close>-th allocation before anything
  is written to it (\<^verbatim>\<open>cudaMalloc\<close> does not clear memory).
\<close>

record device =
  cuda_fails :: "string \<Rightarrow> bool"
  junk :: "nat \<Rightarrow> nat \<Rightarrow> vec3"

datatype cuda_error = CudaError string int

text \<open>\<^verbatim>\<open>checkCUDAError\<close> prints the message and the line and exits the process.\<close>

definition checkCUDAError :: "device \<Rightarrow> string \<Rightarrow> int \<Rightarrow> cuda_error + unit" where
  "checkCUDAError dev msg line =
     (if cuda_fails dev msg then Inl (CudaError msg line) else Inr ())"

definition cudaMalloc :: "device \<Rightarrow> nat \<Rightarrow> nat \<Rightarrow> vec3 list" where
  "cudaMalloc dev k N = map (junk dev k) [0..<N]"

subsection \<open>Kernel state\<close>

record sim =
  numObjects :: nat
  dev_pos :: "vec3 list"
  dev_vel :: "vec3 list"
  dev_acc :: "vec3 list"

subsection \<open>initSimulation\<close>

definition hash :: "32 word \<Rightarrow> 32 word" where
  "hash a0 =
     (let a = (a0 + 0x7ed55d16) + push_bit 12 a0;
          a = (a XOR 0xc761c23c) XOR drop_bit 19 a;
          a = (a + 0x165667b1) + push_bit 5 a;
          a = (a + 0xd3a2646c) XOR push_bit 9 a;
          a = (a + 0xfd7046c5) + push_bit 3 a;
          a = (a XOR 0xb55a4f09) XOR drop_bit 16 a
      in a)"

text \<open>The cast \<^verbatim>\<open>(int)\<close> of a float truncates towards zero.\<close>

definition float_to_int :: "real \<Rightarrow> int" where
  "float_to_int r = (if 0 \<le> r then \<lfloor>r\<rfloor> else \<lceil>r\<rceil>)"

text \<open>
  The random engine and the distribution are thrust's. The parameter \<open>draws\<close> stands
  for them: \<open>draws s\<close> is the vector of the three values that
  \<^verbatim>\<open>uniform_real_distribution<float>(-1, 1)\<close> draws from a
  \<^verbatim>\<open>default_random_engine\<close> seeded with \<open>s\<close>.
\<close>

definition generateRandomVec3 :: "(32 word \<Rightarrow> vec3) \<Rightarrow> real \<Rightarrow> int \<Rightarrow> vec3" where
  "generateRandomVec3 draws time index =
     draws (hash (word_of_int (float_to_int (real_of_int index * time))))"

definition kernGenerateRandomPosArray ::
  "(32 word \<Rightarrow> vec3) \<Rightarrow> int \<Rightarrow> nat \<Rightarrow> real \<Rightarrow> real \<Rightarrow> nat \<Rightarrow> vec3 list \<Rightarrow> vec3 list" where
  "kernGenerateRandomPosArray draws time N scale mass index arr =
     (if index < N
      then (let rand = generateRandomVec3 draws (real_of_int time) (int index)
            in arr[index := Vec3 (scale * vx rand)
                                 (scale * vy rand)
                                 (1 / 10 * scale * sqrt (vx rand * vx rand + vy rand * vy rand) * vz rand)])
      else arr)"

text \<open>
  The velocity kernel gets two pointers to non-const data, so its thread function maps
  the pair of arrays (\<open>arr\<close>, \<open>pos\<close>) to their new contents.
\<close>

definition kernGenerateCircularVelArray ::
  "real \<Rightarrow> real \<Rightarrow> int \<Rightarrow> nat \<Rightarrow> nat \<Rightarrow> vec3 list \<times> vec3 list \<Rightarrow> vec3 list \<times> vec3 list" where
  "kernGenerateCircularVelArray G EPSILON time N index m =
     (case m of (arr, pos) \<Rightarrow>
        if index < N
        then (let R = Vec3 (vx (pos ! index)) (vy (pos ! index)) (vz (pos ! index));
                  r = glm_length R + EPSILON;
                  s = sqrt (G * starMass / r);
                  D = glm_normalize (glm_cross (sdiv R r) (Vec3 0 0 1))
              in (arr[index := Vec3 (s * vx D) (s * vy D) (s * vz D)], pos))
        else (arr, pos))"

definition initSimulation ::
  "device \<Rightarrow> (32 word \<Rightarrow> vec3) \<Rightarrow> real \<Rightarrow> real \<Rightarrow> nat \<Rightarrow> cuda_error + sim" where
  "initSimulation dev draws G EPSILON N =
     (let fullBlocksPerGrid = (N + blockSize - 1) div blockSize;
          pos0 = cudaMalloc dev 0 N
      in case checkCUDAError dev ''cudaMalloc dev_pos failed!'' 117 of
        Inl e \<Rightarrow> Inl e
      | Inr _ \<Rightarrow>
     (let vel0 = cudaMalloc dev 1 N
      in case checkCUDAError dev ''cudaMalloc dev_vel failed!'' 120 of
        Inl e \<Rightarrow> Inl e
      | Inr _ \<Rightarrow>
     (let acc0 = cudaMalloc dev 2 N
      in case checkCUDAError dev ''cudaMalloc dev_acc failed!'' 123 of
        Inl e \<Rightarrow> Inl e
      | Inr _ \<Rightarrow>
     (let pos1 = launch fullBlocksPerGrid blockSize
                   (kernGenerateRandomPosArray draws 1 N scene_scale planetMass) pos0
      in case checkCUDAError dev ''kernGenerateRandomPosArray failed!'' 126 of
        Inl e \<Rightarrow> Inl e
      | Inr _ \<Rightarrow>
     (let (vel1, pos2) = launch fullBlocksPerGrid blockSize
                   (kernGenerateCircularVelArray G EPSILON 2 N) (vel0, pos1)
      in case checkCUDAError dev ''kernGenerateCircularVelArray failed!'' 129 of
        Inl e \<Rightarrow> Inl e
      | Inr _ \<Rightarrow>
        Inr \<lparr>numObjects = N, dev_pos = pos2, dev_vel = vel1, dev_acc = acc0\<rparr>)))))"

subsection \<open>copyPlanetsToVBO\<close>

definition kernCopyPlanetsToVBO ::
  "nat \<Rightarrow> real \<Rightarrow> nat \<Rightarrow> vec3 list \<times> real list \<Rightarrow> vec3 list \<times> real list" where
  "kernCopyPlanetsToVBO N s_scale index m =
     (case m of (pos, vbo) \<Rightarrow>
        let c_scale = - 1 / s_scale
        in if index < N
           then (pos, vbo[4 * index + 0 := vx (pos ! index) * c_scale,
                          4 * index + 1 := vy (pos ! index) * c_scale,
                          4 * index + 2 := vz (pos ! index) * c_scale,
                          4 * index + 3 := 1])
           else (pos, vbo))"

definition copyPlanetsToVBO :: "device \<Rightarrow> sim \<Rightarrow> real list \<Rightarrow> cuda_error + sim \<times> real list" where
  "copyPlanetsToVBO dev s vbodptr =
     (let fullBlocksPerGrid = (numObjects s + blockSize - 1) div blockSize;
          (pos', vbo') = launch fullBlocksPerGrid blockSize
                           (kernCopyPlanetsToVBO (numObjects s) scene_scale) (dev_pos s, vbodptr)
      in case checkCUDAError dev ''copyPlanetsToVBO failed!'' 162 of Inl e \<Rightarrow> Inl e | Inr _ \<Rightarrow>
      Inr (s\<lparr>dev_pos := pos'\<rparr>, vbo'))"

subsection \<open>stepSimulation\<close>

definition kernUpdateAcc :: "real \<Rightarrow> nat \<Rightarrow> real \<Rightarrow> vec3 list \<Rightarrow> nat \<Rightarrow> vec3 list \<Rightarrow> vec3 list" where
  "kernUpdateAcc G N dt pos i acc =
     (if i < N then acc[i := accelerate G N i pos] else acc)"

definition kernUpdateVelPos ::
  "nat \<Rightarrow> real \<Rightarrow> vec3 list \<Rightarrow> nat \<Rightarrow> vec3 list \<times> vec3 list \<Rightarrow> vec3 list \<times> vec3 list" where
  "kernUpdateVelPos N dt acc i m =
     (case m of (pos, vel) \<Rightarrow>
        if i < N
        then (let vel = vel[i := vel ! i + vscale (acc ! i) dt];
                  pos = pos[i := pos ! i + vscale (vel ! i) dt]
              in (pos, vel))
        else (pos, vel))"

definition stepSimulation :: "device \<Rightarrow> real \<Rightarrow> sim \<Rightarrow> real \<Rightarrow> cuda_error + sim" where
  "stepSimulation dev G s dt =
     (let fullBlocksPerGrid = (numObjects s + blockSize - 1) div blockSize;
          acc' = launch fullBlocksPerGrid blockSize
                   (kernUpdateAcc G (numObjects s) dt (dev_pos s)) (dev_acc s)
      in case checkCUDAError dev ''kernUpdateAcc failed!'' 228 of
        Inl e \<Rightarrow> Inl e
      | Inr _ \<Rightarrow>
     (let (pos', vel') = launch fullBlocksPerGrid blockSize
                   (kernUpdateVelPos (numObjects s) dt acc') (dev_pos s, dev_vel s)
      in case checkCUDAError dev ''kernUpdateVelPos failed!'' 232 of
        Inl e \<Rightarrow> Inl e
      | Inr _ \<Rightarrow>
        Inr (s\<lparr>dev_pos := pos', dev_vel := vel', dev_acc := acc'\<rparr>)))"

subsection \<open>Values written per body, and sample environments\<close>

text \<open>
  The two initialisation kernels write, at the cell of thread \<open>index\<close>, a value that
  does not depend on the array written to. \<open>randomPos\<close> and \<open>circularVel\<close> name these
  values (the right-hand sides of the assignments in the kernels); the lemmas
  \<open>kernGenerateRandomPosArray_thread\<close> and \<open>kernGenerateCircularVelArray_thread\<close>
  tie them to the kernels.
\<close>

definition randomPos :: "(32 word \<Rightarrow> vec3) \<Rightarrow> int \<Rightarrow> real \<Rightarrow> nat \<Rightarrow> vec3" where
  "randomPos draws time scale index =
     (let rand = generateRandomVec3 draws (real_of_int time) (int index)
      in Vec3 (scale * vx rand)
              (scale * vy rand)
              (1 / 10 * scale * sqrt (vx rand * vx rand + vy rand * vy rand) * vz rand))"

definition circularVel :: "real \<Rightarrow> real \<Rightarrow> vec3 \<Rightarrow> vec3" where
  "circularVel G EPSILON p =
     (let R = Vec3 (vx p) (vy p) (vz p);
          r = glm_length R + EPSILON;
          s = sqrt (G * starMass / r);
          D = glm_normalize (glm_cross (sdiv R r) (Vec3 0 0 1))
      in Vec3 (s * vx D) (s * vy D) (s * vz D))"

text \<open>
  Environments for the examples: two devices on which no CUDA call fails, one with
  zeros and one with other values in fresh memory, and a generator whose three draws
  are the same for every seed.
\<close>

definition dev_ok :: device where
  "dev_ok = \<lparr>cuda_fails = (\<lambda>msg. False), junk = (\<lambda>k i. Vec3 0 0 0)\<rparr>"

definition dev_dirty :: device where
  "dev_dirty = \<lparr>cuda_fails = (\<lambda>msg. False), junk = (\<lambda>k i. Vec3 1 2 3)\<rparr>"

definition draws_const :: "vec3 \<Rightarrow> 32 word \<Rightarrow> vec3" where
  "draws_const v seed = v"

text \<open>A generator whose draws depend on the seed: the seed scaled into \<open>[-1, 1)\<close>.\<close>

definition draws_seed :: "32 word \<Rightarrow> vec3" where
  "draws_seed seed =
     (let u = real (unat seed) / 2 ^ 31 - 1 in Vec3 u u u)"

text \<open>
  Sample values for the macros \<^verbatim>\<open>G\<close> and \<^verbatim>\<open>EPSILON\<close> of the header that is not at
  hand, for the examples only: the gravitational constant and a small positive number.
\<close>

definition G_sample :: real where
  "G_sample = 667384 / 10 ^ 16"

definition EPSILON_sample :: real where
  "EPSILON_sample = 1 / 100000"

section \<open>Properties\<close>

subsection \<open>Vector arithmetic\<close>

lemma vec3_zero_eq: "Vec3 0 0 0 = 0"
  by (simp add: zero_vec3_def)

lemma glm_dot_self_nonneg: "0 \<le> glm_dot v v"
  by (simp add: glm_dot_def)

lemma glm_length_nonneg: "0 \<le> glm_length v"
  by (simp add: glm_length_def glm_dot_self_nonneg)

lemma glm_length_sq: "glm_length v * glm_length v = glm_dot v v"
  by (simp add: glm_length_def glm_dot_self_nonneg)

lemma glm_distance_sq: "glm_distance p q * glm_distance p q = glm_dot (q - p) (q - p)"
  by (simp add: glm_distance_def glm_length_sq)

lemma glm_distance_self: "glm_distance p p = 0"
  by (simp add: glm_distance_def glm_length_def glm_dot_def zero_vec3_def)

subsection \<open>The accumulation loop\<close>

lemma accelerate_loop_sum:
  "i \<le> N \<Longrightarrow>
   accelerate_loop G N planet pos i acc0 =
     acc0 + (\<Sum>j = i..<N. accelOne G planet (pos ! j) planetMass)"
proof (induction G N planet pos i acc0 rule: accelerate_loop.induct)
  case (1 G N planet pos i acc0)
  show ?case
  proof (cases "i < N")
    case True
    then have "accelerate_loop G N planet pos i acc0 =
        accelerate_loop G N planet pos (i + 1)
          (acc0 + accelOne G planet (pos ! i) planetMass)"
      by (subst accelerate_loop.simps) simp
    also have "\<dots> = acc0 + accelOne G planet (pos ! i) planetMass +
        (\<Sum>j = i + 1..<N. accelOne G planet (pos ! j) planetMass)"
      using True by (intro "1.IH") simp_all
    also have "\<dots> = acc0 + (\<Sum>j = i..<N. accelOne G planet (pos ! j) planetMass)"
      using True by (simp add: sum.atLeast_Suc_lessThan add.assoc)
    finally show ?thesis .
  next
    case False
    with "1.prems" have "i = N" by simp
    then show ?thesis
      by (subst accelerate_loop.simps) simp
  qed
qed

lemma accelOne_guard: "glm_distance p q * glm_distance p q \<le> 1 / 10 \<Longrightarrow> accelOne G p q m = 0"
  by (simp add: accelOne_def Let_def vec3_zero_eq)

lemma accelOne_self: "accelOne G p p m = 0"
  by (rule accelOne_guard) (simp add: glm_distance_self)

lemma accelOne_formula:
  "accelOne G p q m =
     (if glm_distance p q * glm_distance p q > 1 / 10
      then smult (G * m / (glm_distance p q * glm_distance p q)) (glm_normalize (q - p))
      else 0)"
  by (simp add: accelOne_def Let_def vec3_zero_eq)

lemma accelerate_sum:
  "accelerate G N i pos =
     accelOne G (pos ! i) (Vec3 0 0 0) starMass +
     (\<Sum>j<N. accelOne G (pos ! i) (pos ! j) planetMass)"
  by (simp add: accelerate_def Let_def accelerate_loop_sum atLeast0LessThan)

subsection \<open>Force evaluator\<close>

text \<open>
  Claim C1. For every body \<open>i < N\<close> the acceleration that \<open>accelerate\<close> returns is the
  contribution of the central mass at the origin plus the sum, over every \<open>j < N\<close>
  with \<open>j = i\<close> included, of the pairwise contribution
  \<open>G * planetMass / r\<^sup>2\<close> times the normalized direction, each under the guard on the
  squared distance. The term of the body against itself is the zero vector, so the
  sum without \<open>i\<close> is the same sum, and for \<open>N = 1\<close> the acceleration is the
  contribution of the central mass alone.
\<close>

theorem accelerate_total:
  "i < N \<Longrightarrow>
   accelerate G N i pos =
     accelOne G (pos ! i) (Vec3 0 0 0) starMass +
     (\<Sum>j<N. accelOne G (pos ! i) (pos ! j) planetMass)
   \<and> (\<forall>j<N. accelOne G (pos ! i) (pos ! j) planetMass =
         (if glm_distance (pos ! i) (pos ! j) * glm_distance (pos ! i) (pos ! j) > 1 / 10
          then smult (G * planetMass / (glm_distance (pos ! i) (pos ! j) * glm_distance (pos ! i) (pos ! j)))
                 (glm_normalize (pos ! j - pos ! i))
          else Vec3 0 0 0))
   \<and> accelOne G (pos ! i) (pos ! i) planetMass = Vec3 0 0 0
   \<and> (\<Sum>j<N. accelOne G (pos ! i) (pos ! j) planetMass) =
       (\<Sum>j\<in>{..<N} - {i}. accelOne G (pos ! i) (pos ! j) planetMass)
   \<and> (N = 1 \<longrightarrow> accelerate G N i pos = accelOne G (pos ! i) (Vec3 0 0 0) starMass)"
proof (intro conjI allI impI)
  assume i: "i < N"
  show "accelerate G N i pos =
     accelOne G (pos ! i) (Vec3 0 0 0) starMass +
     (\<Sum>j<N. accelOne G (pos ! i) (pos ! j) planetMass)"
    by (rule accelerate_sum)
  show "accelOne G (pos ! i) (pos ! i) planetMass = Vec3 0 0 0"
    by (simp add: accelOne_self vec3_zero_eq)
  show "(\<Sum>j<N. accelOne G (pos ! i) (pos ! j) planetMass) =
       (\<Sum>j\<in>{..<N} - {i}. accelOne G (pos ! i) (pos ! j) planetMass)"
    using i by (subst sum.remove [of _ i]) (simp_all add: accelOne_self)
  show "accelerate G N i pos = accelOne G (pos ! i) (Vec3 0 0 0) starMass" if "N = 1"
  proof -
    from that i have "i = 0" by simp
    with that show ?thesis
      by (simp add: accelerate_sum accelOne_self)
  qed
next
  fix j
  show "accelOne G (pos ! i) (pos ! j) planetMass =
         (if glm_distance (pos ! i) (pos ! j) * glm_distance (pos ! i) (pos ! j) > 1 / 10
          then smult (G * planetMass / (glm_distance (pos ! i) (pos ! j) * glm_distance (pos ! i) (pos ! j)))
                 (glm_normalize (pos ! j - pos ! i))
          else Vec3 0 0 0)"
    by (simp add: accelOne_formula vec3_zero_eq)
qed

theorem accelerate_total_witness:
  "(0::nat) < 1 \<and> accelerate 1 1 0 [Vec3 1 0 0] = Vec3 (- 50000000000) 0 0"
proof -
  have h: "(0::nat) < 1" by simp
  from accelerate_total [OF h, of 1 "[Vec3 1 0 0]"]
  have "accelerate 1 1 0 [Vec3 1 0 0] = accelOne 1 ([Vec3 1 0 0] ! 0) (Vec3 0 0 0) starMass"
    by blast
  also have "\<dots> = Vec3 (- 50000000000) 0 0"
    by (simp add: accelOne_def glm_distance_def glm_length_def glm_dot_def glm_normalize_def
        smult_def starMass_def minus_vec3_def)
  finally show ?thesis by simp
qed

text \<open>
  Claim C8. The central mass goes through the same \<open>accelOne\<close> as the bodies, so the
  guard applies to it too: for a body whose squared distance from the origin is at
  most \<open>1/10\<close> the central-mass term is the zero vector, and the acceleration of that
  body is the sum of the pairwise contributions alone.
\<close>

theorem central_mass_guard:
  "glm_dot (pos ! i) (pos ! i) \<le> 1 / 10 \<Longrightarrow>
   accelOne G (pos ! i) (Vec3 0 0 0) starMass = Vec3 0 0 0
   \<and> accelerate G N i pos = (\<Sum>j<N. accelOne G (pos ! i) (pos ! j) planetMass)"
proof -
  assume near: "glm_dot (pos ! i) (pos ! i) \<le> 1 / 10"
  have "glm_dot (Vec3 0 0 0 - pos ! i) (Vec3 0 0 0 - pos ! i) = glm_dot (pos ! i) (pos ! i)"
    by (simp add: glm_dot_def minus_vec3_def)
  with near have "accelOne G (pos ! i) (Vec3 0 0 0) starMass = 0"
    by (intro accelOne_guard) (simp add: glm_distance_sq)
  then show ?thesis
    by (simp add: accelerate_sum vec3_zero_eq)
qed

theorem central_mass_guard_witness:
  "glm_dot ([Vec3 (1/4) 0 0, Vec3 1 0 0] ! 0) ([Vec3 (1/4) 0 0, Vec3 1 0 0] ! 0) \<le> 1 / 10
   \<and> accelOne 1 (Vec3 (1/4) 0 0) (Vec3 0 0 0) starMass = Vec3 0 0 0"
proof -
  have a: "glm_dot ([Vec3 (1/4) 0 0, Vec3 1 0 0] ! 0) ([Vec3 (1/4) 0 0, Vec3 1 0 0] ! 0) \<le> 1 / 10"
    by (simp add: glm_dot_def)
  from central_mass_guard [OF a, of 1 2] a show ?thesis by simp
qed

subsection \<open>Kernel launches\<close>

lemma fold_preserves:
  assumes "\<And>i m. I m \<Longrightarrow> I (kern i m)" and "I m"
  shows "I (fold kern sched m)"
  using assms(2) by (induction sched arbitrary: m) (simp_all add: assms(1))

lemma fold_cells:
  fixes cell :: "'m \<Rightarrow> nat \<Rightarrow> 'c"
  assumes inv: "\<And>i m. I m \<Longrightarrow> I (kern i m)"
    and frame: "\<And>i k m. I m \<Longrightarrow> k \<noteq> i \<Longrightarrow> cell (kern i m) k = cell m k"
    and own: "\<And>i m. I m \<Longrightarrow> cell (kern i m) i = h i (cell m i)"
  shows "distinct sched \<Longrightarrow> I m \<Longrightarrow>
    cell (fold kern sched m) k = (if k \<in> set sched then h k (cell m k) else cell m k)"
proof (induction sched arbitrary: m)
  case Nil
  then show ?case by simp
next
  case (Cons a sched)
  from Cons.prems have d: "distinct sched" and a: "a \<notin> set sched" and Im: "I (kern a m)"
    by (simp_all add: inv)
  show ?case
  proof (cases "k = a")
    case True
    with a Cons.IH [OF d Im, of ] own [OF Cons.prems(2), of a] show ?thesis by simp
  next
    case False
    with Cons.IH [OF d Im] frame [OF Cons.prems(2) False] show ?thesis by simp
  qed
qed

lemma grid_covers: "N \<le> (N + blockSize - 1) div blockSize * blockSize"
proof -
  have "N + 127 = (N + 127) div 128 * 128 + (N + 127) mod 128"
    by simp
  moreover have "(N + 127) mod 128 < 128"
    by simp
  ultimately have "N \<le> (N + 127) div 128 * 128"
    by linarith
  then show ?thesis by (simp add: blockSize_def)
qed

lemma launch_eq_map:
  assumes len: "\<And>sched. length (prj (launch_sched sched kern m)) = N"
    and cell: "\<And>k. k < N \<Longrightarrow>
      prj (launch_sched [0..<(N + blockSize - 1) div blockSize * blockSize] kern m) ! k = f k"
  shows "prj (launch ((N + blockSize - 1) div blockSize) blockSize kern m) = map f [0..<N]"
proof (rule nth_equalityI)
  show "length (prj (launch ((N + blockSize - 1) div blockSize) blockSize kern m)) =
      length (map f [0..<N])"
    unfolding launch_def by (simp add: len)
  fix k
  assume "k < length (prj (launch ((N + blockSize - 1) div blockSize) blockSize kern m))"
  then have k: "k < N"
    unfolding launch_def by (simp add: len)
  from cell [OF k] k
  show "prj (launch ((N + blockSize - 1) div blockSize) blockSize kern m) ! k = map f [0..<N] ! k"
    unfolding launch_def by simp
qed

lemma kernUpdateAcc_length:
  "length acc = N \<Longrightarrow> length (launch_sched sched (kernUpdateAcc G N dt pos) acc) = N"
  unfolding launch_sched_def
  by (rule fold_preserves [where I = "\<lambda>a. length a = N"]) (simp_all add: kernUpdateAcc_def)

lemma kernUpdateAcc_sched:
  assumes "distinct sched" "length acc = N" "k < N" "k \<in> set sched"
  shows "launch_sched sched (kernUpdateAcc G N dt pos) acc ! k = accelerate G N k pos"
proof -
  let ?I = "\<lambda>a::vec3 list. length a = N"
  let ?h = "\<lambda>i c. if i < N then accelerate G N i pos else c"
  have "(launch_sched sched (kernUpdateAcc G N dt pos) acc) ! k =
      (if k \<in> set sched then ?h k (acc ! k) else acc ! k)"
    unfolding launch_sched_def
    by (rule fold_cells [where I = ?I and cell = nth and h = ?h])
       (simp_all add: kernUpdateAcc_def assms)
  with assms show ?thesis by simp
qed

lemma in_grid: "k < N \<Longrightarrow> k \<in> set [0..<(N + blockSize - 1) div blockSize * blockSize]"
  using grid_covers [of N] by simp

lemma kernUpdateAcc_launch:
  assumes "length acc = N"
  shows "launch ((N + blockSize - 1) div blockSize) blockSize (kernUpdateAcc G N dt pos) acc =
           map (\<lambda>i. accelerate G N i pos) [0..<N]"
proof (rule launch_eq_map [where prj = "\<lambda>a. a"])
  show "length (launch_sched sched (kernUpdateAcc G N dt pos) acc) = N" for sched
    using assms by (rule kernUpdateAcc_length)
  show "launch_sched [0..<(N + blockSize - 1) div blockSize * blockSize]
      (kernUpdateAcc G N dt pos) acc ! k = accelerate G N k pos" if "k < N" for k
    using distinct_upt assms that in_grid [OF that] by (rule kernUpdateAcc_sched)
qed

lemma kernUpdateVelPos_length:
  assumes "length pos = N" "length vel = N"
  shows "length (fst (launch_sched sched (kernUpdateVelPos N dt acc) (pos, vel))) = N
       \<and> length (snd (launch_sched sched (kernUpdateVelPos N dt acc) (pos, vel))) = N"
  unfolding launch_sched_def
  by (rule fold_preserves [where I = "\<lambda>m. length (fst m) = N \<and> length (snd m) = N"])
     (auto simp: kernUpdateVelPos_def Let_def assms split: prod.splits)

lemma kernUpdateVelPos_sched:
  assumes "distinct sched" "length pos = N" "length vel = N" "k < N" "k \<in> set sched"
  shows "fst (launch_sched sched (kernUpdateVelPos N dt acc) (pos, vel)) ! k =
           pos ! k + vscale (vel ! k + vscale (acc ! k) dt) dt"
    and "snd (launch_sched sched (kernUpdateVelPos N dt acc) (pos, vel)) ! k =
           vel ! k + vscale (acc ! k) dt"
proof -
  let ?I = "\<lambda>m::vec3 list \<times> vec3 list. length (fst m) = N \<and> length (snd m) = N"
  let ?cell = "\<lambda>(m::vec3 list \<times> vec3 list) k. (fst m ! k, snd m ! k)"
  let ?h = "\<lambda>i (c::vec3 \<times> vec3). if i < N
      then (fst c + vscale (snd c + vscale (acc ! i) dt) dt, snd c + vscale (acc ! i) dt) else c"
  have "?cell (launch_sched sched (kernUpdateVelPos N dt acc) (pos, vel)) k =
      (if k \<in> set sched then ?h k (?cell (pos, vel) k) else ?cell (pos, vel) k)"
    unfolding launch_sched_def
    by (rule fold_cells [where I = ?I and cell = ?cell and h = ?h])
       (auto simp: kernUpdateVelPos_def Let_def assms split: prod.splits)
  with assms show "fst (launch_sched sched (kernUpdateVelPos N dt acc) (pos, vel)) ! k =
           pos ! k + vscale (vel ! k + vscale (acc ! k) dt) dt"
    and "snd (launch_sched sched (kernUpdateVelPos N dt acc) (pos, vel)) ! k =
           vel ! k + vscale (acc ! k) dt"
    by simp_all
qed

lemma stepSimulation_Inr:
  assumes "stepSimulation dev G s dt = Inr s'"
  shows "dev_acc s' = launch ((numObjects s + blockSize - 1) div blockSize) blockSize
                   (kernUpdateAcc G (numObjects s) dt (dev_pos s)) (dev_acc s)"
    and "(dev_pos s', dev_vel s') = launch ((numObjects s + blockSize - 1) div blockSize) blockSize
                   (kernUpdateVelPos (numObjects s) dt (dev_acc s')) (dev_pos s, dev_vel s)"
    and "numObjects s' = numObjects s"
  using assms
  by (auto simp: stepSimulation_def Let_def checkCUDAError_def split: if_splits prod.splits)


lemma kernUpdateVelPos_launch:
  assumes "length pos = N" "length vel = N"
  shows "launch ((N + blockSize - 1) div blockSize) blockSize (kernUpdateVelPos N dt acc) (pos, vel) =
           (map (\<lambda>i. pos ! i + vscale (vel ! i + vscale (acc ! i) dt) dt) [0..<N],
            map (\<lambda>i. vel ! i + vscale (acc ! i) dt) [0..<N])"
proof (rule prod_eqI)
  have "fst (launch ((N + blockSize - 1) div blockSize) blockSize (kernUpdateVelPos N dt acc) (pos, vel)) =
      map (\<lambda>i. pos ! i + vscale (vel ! i + vscale (acc ! i) dt) dt) [0..<N]"
  proof (rule launch_eq_map [where prj = fst])
    show "length (fst (launch_sched sched (kernUpdateVelPos N dt acc) (pos, vel))) = N" for sched
      using kernUpdateVelPos_length [OF assms] by blast
    show "fst (launch_sched [0..<(N + blockSize - 1) div blockSize * blockSize]
        (kernUpdateVelPos N dt acc) (pos, vel)) ! k =
        pos ! k + vscale (vel ! k + vscale (acc ! k) dt) dt" if "k < N" for k
      using distinct_upt assms that in_grid [OF that] by (rule kernUpdateVelPos_sched(1))
  qed
  then show "fst (launch ((N + blockSize - 1) div blockSize) blockSize (kernUpdateVelPos N dt acc) (pos, vel)) =
      fst (map (\<lambda>i. pos ! i + vscale (vel ! i + vscale (acc ! i) dt) dt) [0..<N],
            map (\<lambda>i. vel ! i + vscale (acc ! i) dt) [0..<N])"
    by simp
  have "snd (launch ((N + blockSize - 1) div blockSize) blockSize (kernUpdateVelPos N dt acc) (pos, vel)) =
      map (\<lambda>i. vel ! i + vscale (acc ! i) dt) [0..<N]"
  proof (rule launch_eq_map [where prj = snd])
    show "length (snd (launch_sched sched (kernUpdateVelPos N dt acc) (pos, vel))) = N" for sched
      using kernUpdateVelPos_length [OF assms] by blast
    show "snd (launch_sched [0..<(N + blockSize - 1) div blockSize * blockSize]
        (kernUpdateVelPos N dt acc) (pos, vel)) ! k = vel ! k + vscale (acc ! k) dt" if "k < N" for k
      using distinct_upt assms that in_grid [OF that] by (rule kernUpdateVelPos_sched(2))
  qed
  then show "snd (launch ((N + blockSize - 1) div blockSize) blockSize (kernUpdateVelPos N dt acc) (pos, vel)) =
      snd (map (\<lambda>i. pos ! i + vscale (vel ! i + vscale (acc ! i) dt) dt) [0..<N],
            map (\<lambda>i. vel ! i + vscale (acc ! i) dt) [0..<N])"
    by simp
qed

lemma stepSimulation_eq:
  assumes "\<not> cuda_fails dev ''kernUpdateAcc failed!''"
    and "\<not> cuda_fails dev ''kernUpdateVelPos failed!''"
    and "length (dev_pos s) = numObjects s" "length (dev_vel s) = numObjects s"
    and "length (dev_acc s) = numObjects s"
  shows "stepSimulation dev G s dt =
    Inr (s\<lparr>dev_pos := map (\<lambda>i. dev_pos s ! i +
                  vscale (dev_vel s ! i + vscale (accelerate G (numObjects s) i (dev_pos s)) dt) dt)
                  [0..<numObjects s],
           dev_vel := map (\<lambda>i. dev_vel s ! i + vscale (accelerate G (numObjects s) i (dev_pos s)) dt)
                  [0..<numObjects s],
           dev_acc := map (\<lambda>i. accelerate G (numObjects s) i (dev_pos s)) [0..<numObjects s]\<rparr>)"
proof -
  let ?N = "numObjects s"
  let ?acc = "map (\<lambda>i. accelerate G ?N i (dev_pos s)) [0..<?N]"
  have a: "launch ((?N + blockSize - 1) div blockSize) blockSize
      (kernUpdateAcc G ?N dt (dev_pos s)) (dev_acc s) = ?acc"
    using assms(5) by (rule kernUpdateAcc_launch)
  have b: "launch ((?N + blockSize - 1) div blockSize) blockSize
      (kernUpdateVelPos ?N dt ?acc) (dev_pos s, dev_vel s) =
      (map (\<lambda>i. dev_pos s ! i + vscale (dev_vel s ! i + vscale (?acc ! i) dt) dt) [0..<?N],
       map (\<lambda>i. dev_vel s ! i + vscale (?acc ! i) dt) [0..<?N])"
    using assms(3,4) by (rule kernUpdateVelPos_launch)
  show ?thesis
    unfolding stepSimulation_def Let_def a b
    using assms(1,2) by (simp add: checkCUDAError_def cong: map_cong)
qed

lemma vscale_add: "vscale (a + b) k = vscale a k + vscale b k"
  by (simp add: vscale_def plus_vec3_def algebra_simps)

lemma vscale_eq_0_iff: "vscale a k = 0 \<longleftrightarrow> a = 0 \<or> k = 0"
  by (cases a) (auto simp: vscale_def zero_vec3_def)

subsection \<open>Integrator\<close>

text \<open>
  Claim C2. One launch of \<open>kernUpdateVelPos\<close> with time step \<open>dt\<close> first updates the
  velocity of every body \<open>i < N\<close> to \<open>vel + acc * dt\<close> and then the position to
  \<open>pos + vel' * dt\<close> with the velocity it has just written, so the new position is
  \<open>pos + (vel + acc * dt) * dt\<close>; whenever the acceleration and \<open>dt\<close> are not zero this
  differs from \<open>pos + vel * dt\<close>. The statement holds for every \<open>dt\<close>, positive or not.
\<close>

theorem kernUpdateVelPos_symplectic_euler:
  assumes "length pos = N" and "length vel = N" and "i < N"
    and "launch ((N + blockSize - 1) div blockSize) blockSize (kernUpdateVelPos N dt acc) (pos, vel)
          = (pos', vel')"
  shows "vel' ! i = vel ! i + vscale (acc ! i) dt
       \<and> pos' ! i = pos ! i + vscale (vel' ! i) dt
       \<and> pos' ! i = pos ! i + vscale (vel ! i + vscale (acc ! i) dt) dt
       \<and> (acc ! i \<noteq> 0 \<and> dt \<noteq> 0 \<longrightarrow> pos' ! i \<noteq> pos ! i + vscale (vel ! i) dt)"
proof -
  from assms(4) kernUpdateVelPos_launch [OF assms(1,2), of dt acc]
  have p: "pos' = map (\<lambda>i. pos ! i + vscale (vel ! i + vscale (acc ! i) dt) dt) [0..<N]"
    and v: "vel' = map (\<lambda>i. vel ! i + vscale (acc ! i) dt) [0..<N]"
    by simp_all
  from v assms(3) have v': "vel' ! i = vel ! i + vscale (acc ! i) dt"
    by simp
  from p assms(3) have p': "pos' ! i = pos ! i + vscale (vel ! i + vscale (acc ! i) dt) dt"
    by simp
  have "pos' ! i \<noteq> pos ! i + vscale (vel ! i) dt" if "acc ! i \<noteq> 0 \<and> dt \<noteq> 0"
  proof
    assume "pos' ! i = pos ! i + vscale (vel ! i) dt"
    with p' have "vscale (vscale (acc ! i) dt) dt = 0"
      by (simp add: vscale_add)
    with that show False
      by (simp add: vscale_eq_0_iff)
  qed
  with v' p' show ?thesis by simp
qed

theorem kernUpdateVelPos_symplectic_euler_witness:
  "length [Vec3 0 0 0] = 1 \<and> length [Vec3 1 0 0] = 1 \<and> (0::nat) < 1
   \<and> [Vec3 2 0 0] ! 0 \<noteq> 0 \<and> (1/2::real) \<noteq> 0
   \<and> launch ((1 + blockSize - 1) div blockSize) blockSize (kernUpdateVelPos 1 (1/2) [Vec3 2 0 0])
        ([Vec3 0 0 0], [Vec3 1 0 0]) = ([Vec3 1 0 0], [Vec3 2 0 0])
   \<and> [Vec3 1 0 0] ! 0 \<noteq> [Vec3 0 0 0] ! 0 + vscale ([Vec3 1 0 0] ! 0) (1/2)"
proof -
  have l: "length [Vec3 0 0 0] = 1" "length [Vec3 1 0 0] = 1" "(0::nat) < 1"
    by simp_all
  have a: "[Vec3 2 0 0] ! 0 \<noteq> 0 \<and> (1/2::real) \<noteq> 0"
    by (simp add: zero_vec3_def)
  have r: "launch ((1 + blockSize - 1) div blockSize) blockSize (kernUpdateVelPos 1 (1/2) [Vec3 2 0 0])
        ([Vec3 0 0 0], [Vec3 1 0 0]) = ([Vec3 1 0 0], [Vec3 2 0 0])"
    by (subst kernUpdateVelPos_launch) (simp_all add: vscale_def plus_vec3_def)
  from kernUpdateVelPos_symplectic_euler [OF l r] a l r show ?thesis
    by blast
qed

lemma kernUpdateAcc_dt: "kernUpdateAcc G N dta pos = kernUpdateAcc G N dtb pos"
  by (intro ext) (simp add: kernUpdateAcc_def)

text \<open>
  Claim C10. The acceleration pass does not use its \<open>dt\<close> parameter: for any two
  time steps the thread function, the launch and the acceleration array left by
  \<open>stepSimulation\<close> are the same, and on an array of length \<open>N\<close> the launch writes
  \<open>accelerate G N i pos\<close> for each body \<open>i\<close>, which depends on \<open>N\<close> and the positions
  (and the constant \<open>G\<close>) only.
\<close>

theorem kernUpdateAcc_ignores_dt:
  "kernUpdateAcc G N dta pos i acc = kernUpdateAcc G N dtb pos i acc
   \<and> launch grid block (kernUpdateAcc G N dta pos) acc =
       launch grid block (kernUpdateAcc G N dtb pos) acc
   \<and> (length acc = N \<longrightarrow>
        launch ((N + blockSize - 1) div blockSize) blockSize (kernUpdateAcc G N dta pos) acc =
          map (\<lambda>i. accelerate G N i pos) [0..<N])
   \<and> (stepSimulation dev G s dta = Inr sa \<and> stepSimulation dev G s dtb = Inr sb \<longrightarrow>
        dev_acc sa = dev_acc sb)"
proof (intro conjI impI)
  show "kernUpdateAcc G N dta pos i acc = kernUpdateAcc G N dtb pos i acc"
    by (simp add: kernUpdateAcc_def)
  show "launch grid block (kernUpdateAcc G N dta pos) acc =
       launch grid block (kernUpdateAcc G N dtb pos) acc"
    by (simp add: kernUpdateAcc_dt [of G N dta pos dtb])
  show "launch ((N + blockSize - 1) div blockSize) blockSize (kernUpdateAcc G N dta pos) acc =
          map (\<lambda>i. accelerate G N i pos) [0..<N]" if "length acc = N"
    using that by (rule kernUpdateAcc_launch)
  assume "stepSimulation dev G s dta = Inr sa \<and> stepSimulation dev G s dtb = Inr sb"
  then have a: "stepSimulation dev G s dta = Inr sa" and b: "stepSimulation dev G s dtb = Inr sb"
    by simp_all
  from stepSimulation_Inr(1) [OF a] stepSimulation_Inr(1) [OF b]
  show "dev_acc sa = dev_acc sb"
    by (simp only: kernUpdateAcc_dt [of G "numObjects s" dta "dev_pos s" dtb])
qed


lemma accelerate_example: "accelerate 1 (Suc 0) 0 [Vec3 1 0 0] = Vec3 (- 50000000000) 0 0"
  by (simp add: accelerate_sum accelOne_self)
     (simp add: accelOne_def glm_distance_def glm_length_def glm_dot_def glm_normalize_def
        smult_def starMass_def minus_vec3_def)

theorem kernUpdateAcc_ignores_dt_witness:
  "length [Vec3 0 0 0] = 1
   \<and> stepSimulation dev_ok 1
        \<lparr>numObjects = 1, dev_pos = [Vec3 1 0 0], dev_vel = [Vec3 0 0 0], dev_acc = [Vec3 0 0 0]\<rparr> 1
       = Inr \<lparr>numObjects = 1, dev_pos = [Vec3 (- 49999999999) 0 0],
              dev_vel = [Vec3 (- 50000000000) 0 0], dev_acc = [Vec3 (- 50000000000) 0 0]\<rparr>
   \<and> stepSimulation dev_ok 1
        \<lparr>numObjects = 1, dev_pos = [Vec3 1 0 0], dev_vel = [Vec3 0 0 0], dev_acc = [Vec3 0 0 0]\<rparr> 2
       = Inr \<lparr>numObjects = 1, dev_pos = [Vec3 (- 199999999999) 0 0],
              dev_vel = [Vec3 (- 100000000000) 0 0], dev_acc = [Vec3 (- 50000000000) 0 0]\<rparr>
   \<and> dev_acc \<lparr>numObjects = 1, dev_pos = [Vec3 (- 49999999999) 0 0],
              dev_vel = [Vec3 (- 50000000000) 0 0], dev_acc = [Vec3 (- 50000000000) 0 0]\<rparr>
     = dev_acc \<lparr>numObjects = 1, dev_pos = [Vec3 (- 199999999999) 0 0],
              dev_vel = [Vec3 (- 100000000000) 0 0], dev_acc = [Vec3 (- 50000000000) 0 0]\<rparr>"
proof -
  let ?dev = "dev_ok"
  let ?s = "\<lparr>numObjects = 1, dev_pos = [Vec3 1 0 0], dev_vel = [Vec3 0 0 0], dev_acc = [Vec3 0 0 0]\<rparr>"
  have a: "stepSimulation ?dev 1 ?s 1
       = Inr \<lparr>numObjects = 1, dev_pos = [Vec3 (- 49999999999) 0 0],
              dev_vel = [Vec3 (- 50000000000) 0 0], dev_acc = [Vec3 (- 50000000000) 0 0]\<rparr>"
    by (subst stepSimulation_eq)
       (simp_all add: dev_ok_def accelerate_example vscale_def plus_vec3_def)
  have b: "stepSimulation ?dev 1 ?s 2
       = Inr \<lparr>numObjects = 1, dev_pos = [Vec3 (- 199999999999) 0 0],
              dev_vel = [Vec3 (- 100000000000) 0 0], dev_acc = [Vec3 (- 50000000000) 0 0]\<rparr>"
    by (subst stepSimulation_eq)
       (simp_all add: dev_ok_def accelerate_example vscale_def plus_vec3_def)
  have l: "length [Vec3 0 0 0] = 1"
    by simp
  from kernUpdateAcc_ignores_dt [where G = 1 and N = 1 and dta = 1 and dtb = 2 and acc = "[Vec3 0 0 0]"
      and dev = ?dev and s = ?s] a b l
  show ?thesis by blast
qed

subsection \<open>Render projector\<close>

lemma kernCopyPlanetsToVBO_inv:
  assumes "4 * N \<le> length vbo"
  shows "fst (launch_sched sched (kernCopyPlanetsToVBO N sc) (pos, vbo)) = pos
       \<and> length (snd (launch_sched sched (kernCopyPlanetsToVBO N sc) (pos, vbo))) = length vbo
       \<and> (\<forall>k\<ge>4 * N. snd (launch_sched sched (kernCopyPlanetsToVBO N sc) (pos, vbo)) ! k = vbo ! k)"
  unfolding launch_sched_def
  by (rule fold_preserves [where I = "\<lambda>m. fst m = pos \<and> length (snd m) = length vbo
        \<and> (\<forall>k\<ge>4 * N. snd m ! k = vbo ! k)"])
     (auto simp: kernCopyPlanetsToVBO_def Let_def split: prod.splits)

lemma kernCopyPlanetsToVBO_sched:
  assumes "distinct sched" "4 * N \<le> length vbo" "k < N" "k \<in> set sched"
  shows "(let vbo' = snd (launch_sched sched (kernCopyPlanetsToVBO N sc) (pos, vbo))
          in (vbo' ! (4 * k), vbo' ! (4 * k + 1), vbo' ! (4 * k + 2), vbo' ! (4 * k + 3))) =
         (vx (pos ! k) * (- 1 / sc), vy (pos ! k) * (- 1 / sc), vz (pos ! k) * (- 1 / sc), 1)"
proof -
  let ?I = "\<lambda>m::vec3 list \<times> real list. fst m = pos \<and> length (snd m) = length vbo"
  let ?cell = "\<lambda>(m::vec3 list \<times> real list) k.
      (snd m ! (4 * k), snd m ! (4 * k + 1), snd m ! (4 * k + 2), snd m ! (4 * k + 3))"
  let ?h = "\<lambda>i (c::real \<times> real \<times> real \<times> real). if i < N
      then (vx (pos ! i) * (- 1 / sc), vy (pos ! i) * (- 1 / sc), vz (pos ! i) * (- 1 / sc), 1) else c"
  have "?cell (launch_sched sched (kernCopyPlanetsToVBO N sc) (pos, vbo)) k =
      (if k \<in> set sched then ?h k (?cell (pos, vbo) k) else ?cell (pos, vbo) k)"
    unfolding launch_sched_def
  proof (rule fold_cells [where I = ?I and cell = ?cell and h = ?h])
    show "?I (kernCopyPlanetsToVBO N sc i m)" if "?I m" for i m
      using that by (auto simp: kernCopyPlanetsToVBO_def Let_def split: prod.splits)
    show "?cell (kernCopyPlanetsToVBO N sc i m) k = ?cell m k" if "?I m" "k \<noteq> i" for i k m
      using that by (auto simp: kernCopyPlanetsToVBO_def Let_def split: prod.splits)
    show "?cell (kernCopyPlanetsToVBO N sc i m) i = ?h i (?cell m i)" if "?I m" for i m
      using that assms(2) by (auto simp: kernCopyPlanetsToVBO_def Let_def split: prod.splits)
    show "distinct sched" by fact
    show "?I (pos, vbo)" by simp
  qed
  with assms show ?thesis by (simp add: Let_def)
qed


lemma launch_guard:
  assumes "\<And>i m. N \<le> i \<Longrightarrow> kern i m = m"
  shows "launch ((N + blockSize - 1) div blockSize) blockSize kern m = fold kern [0..<N] m"
proof -
  let ?M = "(N + blockSize - 1) div blockSize * blockSize"
  have "[0..<?M] = [0..<N] @ [N..<?M]"
    using grid_covers [of N] by (metis le_add_diff_inverse upt_add_eq_append zero_le)
  moreover have "fold kern [N..<?M] = id"
    by (rule fold_id) (auto simp: assms)
  ultimately show ?thesis
    by (simp add: launch_def launch_sched_def)
qed

lemma copyPlanetsToVBO_Inr:
  assumes "copyPlanetsToVBO dev s vbo = Inr (s', vbo')"
  shows "s' = s\<lparr>dev_pos := fst (launch ((numObjects s + blockSize - 1) div blockSize) blockSize
                 (kernCopyPlanetsToVBO (numObjects s) scene_scale) (dev_pos s, vbo))\<rparr>"
    and "vbo' = snd (launch ((numObjects s + blockSize - 1) div blockSize) blockSize
                 (kernCopyPlanetsToVBO (numObjects s) scene_scale) (dev_pos s, vbo))"
  using assms
  by (auto simp: copyPlanetsToVBO_def Let_def checkCUDAError_def split: if_splits prod.splits)

text \<open>
  Claim C7. \<open>copyPlanetsToVBO\<close> writes, for every body \<open>i < numObjects\<close>, the four
  floats at the indices \<open>4i .. 4i+3\<close> of the destination buffer: the components of the
  position of body \<open>i\<close>, each times \<open>-1 / scene_scale\<close>, and then \<open>1\<close>. The buffer keeps its
  length and its cells from \<open>4 * numObjects\<close> on, and the engine state (body count,
  positions, velocities, accelerations) is returned as it was. The buffer has to
  hold \<open>4 * numObjects\<close> floats, as the source requires of its caller.
\<close>

theorem copyPlanetsToVBO_layout:
  assumes "copyPlanetsToVBO dev s vbo = Inr (s', vbo')"
    and "length (dev_pos s) = numObjects s"
    and "4 * numObjects s \<le> length vbo"
  shows "s' = s
       \<and> length vbo' = length vbo
       \<and> (\<forall>i<numObjects s.
            vbo' ! (4 * i + 0) = vx (dev_pos s ! i) * (- 1 / scene_scale)
          \<and> vbo' ! (4 * i + 1) = vy (dev_pos s ! i) * (- 1 / scene_scale)
          \<and> vbo' ! (4 * i + 2) = vz (dev_pos s ! i) * (- 1 / scene_scale)
          \<and> vbo' ! (4 * i + 3) = 1)
       \<and> (\<forall>k\<ge>4 * numObjects s. vbo' ! k = vbo ! k)"
proof -
  let ?N = "numObjects s"
  let ?sched = "[0..<(?N + blockSize - 1) div blockSize * blockSize]"
  let ?L = "launch_sched ?sched (kernCopyPlanetsToVBO ?N scene_scale) (dev_pos s, vbo)"
  from copyPlanetsToVBO_Inr [OF assms(1)]
  have s': "s' = s\<lparr>dev_pos := fst ?L\<rparr>" and vbo': "vbo' = snd ?L"
    by (simp_all only: launch_def)
  from kernCopyPlanetsToVBO_inv [OF assms(3), of ?sched scene_scale "dev_pos s"]
  have inv: "fst ?L = dev_pos s" "length (snd ?L) = length vbo"
    "\<forall>k\<ge>4 * ?N. snd ?L ! k = vbo ! k"
    by blast+
  have cells: "vbo' ! (4 * i + 0) = vx (dev_pos s ! i) * (- 1 / scene_scale)
          \<and> vbo' ! (4 * i + 1) = vy (dev_pos s ! i) * (- 1 / scene_scale)
          \<and> vbo' ! (4 * i + 2) = vz (dev_pos s ! i) * (- 1 / scene_scale)
          \<and> vbo' ! (4 * i + 3) = 1" if "i < ?N" for i
    using kernCopyPlanetsToVBO_sched [OF distinct_upt assms(3) that in_grid [OF that],
        of scene_scale "dev_pos s"]
    unfolding vbo' by (simp add: Let_def)
  from s' inv(1) have "s' = s" by simp
  with inv(2,3) cells show ?thesis
    unfolding vbo' by blast
qed

theorem copyPlanetsToVBO_layout_witness:
  "copyPlanetsToVBO dev_ok
      \<lparr>numObjects = 1, dev_pos = [Vec3 100 50 (- 200)], dev_vel = [Vec3 0 0 0], dev_acc = [Vec3 0 0 0]\<rparr>
      [9, 9, 9, 9, 7]
    = Inr (\<lparr>numObjects = 1, dev_pos = [Vec3 100 50 (- 200)], dev_vel = [Vec3 0 0 0],
            dev_acc = [Vec3 0 0 0]\<rparr>, [- 1, - (1 / 2), 2, 1, 7])
   \<and> length (dev_pos \<lparr>numObjects = 1, dev_pos = [Vec3 100 50 (- 200)], dev_vel = [Vec3 0 0 0],
            dev_acc = [Vec3 0 0 0]\<rparr>) = 1
   \<and> 4 * (1::nat) \<le> length [9, 9, 9, 9, 7::real]
   \<and> [- 1, - (1 / 2), 2, 1, 7::real] ! (4 * 0 + 2) = vz (Vec3 100 50 (- 200)) * (- 1 / scene_scale)
   \<and> [- 1, - (1 / 2), 2, 1, 7::real] ! 4 = [9, 9, 9, 9, 7] ! 4"
proof -
  let ?dev = "dev_ok"
  let ?s = "\<lparr>numObjects = 1, dev_pos = [Vec3 100 50 (- 200)], dev_vel = [Vec3 0 0 0],
            dev_acc = [Vec3 0 0 0]\<rparr>"
  have run: "copyPlanetsToVBO ?dev ?s [9, 9, 9, 9, 7] = Inr (?s, [- 1, - (1 / 2), 2, 1, 7])"
    unfolding copyPlanetsToVBO_def Let_def
    by (subst launch_guard)
       (simp_all add: kernCopyPlanetsToVBO_def checkCUDAError_def scene_scale_def dev_ok_def)
  have l: "length (dev_pos ?s) = numObjects ?s" "4 * numObjects ?s \<le> length [9, 9, 9, 9, 7::real]"
    by simp_all
  from copyPlanetsToVBO_layout [OF run l] run l show ?thesis
    by simp
qed

subsection \<open>Scene initializer\<close>

lemma kernGenerateRandomPosArray_thread:
  "kernGenerateRandomPosArray draws time N scale mass index arr =
     (if index < N then arr[index := randomPos draws time scale index] else arr)"
  by (simp add: kernGenerateRandomPosArray_def randomPos_def Let_def)

lemma kernGenerateCircularVelArray_thread:
  "kernGenerateCircularVelArray G EPSILON time N index (arr, pos) =
     (if index < N then (arr[index := circularVel G EPSILON (pos ! index)], pos) else (arr, pos))"
  by (simp add: kernGenerateCircularVelArray_def circularVel_def Let_def)

lemma sched_eq_map:
  assumes len: "length (prj (launch_sched sched kern m)) = N"
    and cell: "\<And>k. k < N \<Longrightarrow> prj (launch_sched sched kern m) ! k = f k"
  shows "prj (launch_sched sched kern m) = map f [0..<N]"
  by (rule nth_equalityI) (simp_all add: len cell)

lemma kernGenerateRandomPosArray_sched:
  assumes "distinct sched" "{..<N} \<subseteq> set sched" "length arr = N"
  shows "launch_sched sched (kernGenerateRandomPosArray draws time N scale mass) arr =
           map (randomPos draws time scale) [0..<N]"
proof (rule sched_eq_map [where prj = "\<lambda>a. a"])
  let ?kern = "kernGenerateRandomPosArray draws time N scale mass"
  show "length (launch_sched sched ?kern arr) = N"
    unfolding launch_sched_def
    by (rule fold_preserves [where I = "\<lambda>a. length a = N"])
       (simp_all add: kernGenerateRandomPosArray_thread assms)
  fix k assume k: "k < N"
  let ?h = "\<lambda>i c. if i < N then randomPos draws time scale i else c"
  have "launch_sched sched ?kern arr ! k = (if k \<in> set sched then ?h k (arr ! k) else arr ! k)"
    unfolding launch_sched_def
    by (rule fold_cells [where I = "\<lambda>a. length a = N" and cell = nth and h = ?h])
       (simp_all add: kernGenerateRandomPosArray_thread assms)
  with k assms(2) show "launch_sched sched ?kern arr ! k = randomPos draws time scale k"
    by auto
qed

lemma kernGenerateCircularVelArray_sched:
  assumes "distinct sched" "{..<N} \<subseteq> set sched" "length arr = N" "length pos = N"
  shows "launch_sched sched (kernGenerateCircularVelArray G EPSILON time N) (arr, pos) =
           (map (circularVel G EPSILON) pos, pos)"
proof (rule prod_eqI)
  let ?kern = "kernGenerateCircularVelArray G EPSILON time N"
  let ?I = "\<lambda>m::vec3 list \<times> vec3 list. length (fst m) = N \<and> snd m = pos"
  have inv: "?I (launch_sched sched ?kern (arr, pos))"
    unfolding launch_sched_def
    by (rule fold_preserves [where I = ?I])
       (auto simp: kernGenerateCircularVelArray_thread assms)
  then show "snd (launch_sched sched ?kern (arr, pos)) = snd (map (circularVel G EPSILON) pos, pos)"
    by simp
  have "fst (launch_sched sched ?kern (arr, pos)) = map (\<lambda>k. circularVel G EPSILON (pos ! k)) [0..<N]"
  proof (rule sched_eq_map [where prj = fst])
    show "length (fst (launch_sched sched ?kern (arr, pos))) = N"
      using inv by simp
    fix k assume k: "k < N"
    let ?h = "\<lambda>i c. if i < N then circularVel G EPSILON (pos ! i) else c"
    have "fst (launch_sched sched ?kern (arr, pos)) ! k =
        (if k \<in> set sched then ?h k (fst (arr, pos) ! k) else fst (arr, pos) ! k)"
      unfolding launch_sched_def
      by (rule fold_cells [where I = ?I and cell = "\<lambda>m k. fst m ! k" and h = ?h])
         (auto simp: kernGenerateCircularVelArray_thread assms)
    with k assms(2) show "fst (launch_sched sched ?kern (arr, pos)) ! k = circularVel G EPSILON (pos ! k)"
      by auto
  qed
  also have "\<dots> = map (circularVel G EPSILON) pos"
    using assms(4) by (intro nth_equalityI) simp_all
  finally show "fst (launch_sched sched ?kern (arr, pos)) = fst (map (circularVel G EPSILON) pos, pos)"
    by simp
qed

lemma grid_sched: "distinct [0..<(N + blockSize - 1) div blockSize * blockSize]
    \<and> {..<N} \<subseteq> set [0..<(N + blockSize - 1) div blockSize * blockSize]"
  using grid_covers [of N] by auto

lemma initSimulation_Inr:
  assumes "initSimulation dev draws G EPSILON N = Inr s"
  shows "numObjects s = N"
    and "dev_pos s = map (randomPos draws 1 scene_scale) [0..<N]"
    and "dev_vel s = map (circularVel G EPSILON) (dev_pos s)"
    and "dev_acc s = cudaMalloc dev 2 N"
proof -
  let ?g = "(N + blockSize - 1) div blockSize"
  have p: "launch ?g blockSize (kernGenerateRandomPosArray draws 1 N scene_scale planetMass)
      (cudaMalloc dev 0 N) = map (randomPos draws 1 scene_scale) [0..<N]"
    unfolding launch_def using grid_sched [of N]
    by (intro kernGenerateRandomPosArray_sched) (simp_all add: cudaMalloc_def)
  have v: "launch ?g blockSize (kernGenerateCircularVelArray G EPSILON 2 N)
      (cudaMalloc dev 1 N, map (randomPos draws 1 scene_scale) [0..<N]) =
      (map (circularVel G EPSILON) (map (randomPos draws 1 scene_scale) [0..<N]),
       map (randomPos draws 1 scene_scale) [0..<N])"
    unfolding launch_def using grid_sched [of N]
    by (intro kernGenerateCircularVelArray_sched) (simp_all add: cudaMalloc_def)
  from assms have "s = \<lparr>numObjects = N, dev_pos = map (randomPos draws 1 scene_scale) [0..<N],
      dev_vel = map (circularVel G EPSILON) (map (randomPos draws 1 scene_scale) [0..<N]),
      dev_acc = cudaMalloc dev 2 N\<rparr>"
    unfolding initSimulation_def Let_def p v
    by (simp add: checkCUDAError_def split: if_splits)
  then show "numObjects s = N"
    and "dev_pos s = map (randomPos draws 1 scene_scale) [0..<N]"
    and "dev_vel s = map (circularVel G EPSILON) (dev_pos s)"
    and "dev_acc s = cudaMalloc dev 2 N"
    by simp_all
qed

lemma initSimulation_no_failure:
  assumes "\<And>msg. \<not> cuda_fails dev msg"
  shows "initSimulation dev draws G EPSILON N =
     Inr \<lparr>numObjects = N, dev_pos = map (randomPos draws 1 scene_scale) [0..<N],
          dev_vel = map (circularVel G EPSILON) (map (randomPos draws 1 scene_scale) [0..<N]),
          dev_acc = cudaMalloc dev 2 N\<rparr>"
proof -
  have "\<exists>s. initSimulation dev draws G EPSILON N = Inr s"
    by (simp add: initSimulation_def Let_def checkCUDAError_def assms split: prod.splits)
  then obtain s where s: "initSimulation dev draws G EPSILON N = Inr s" ..
  from initSimulation_Inr [OF s]
  have "s = \<lparr>numObjects = N, dev_pos = map (randomPos draws 1 scene_scale) [0..<N],
          dev_vel = map (circularVel G EPSILON) (map (randomPos draws 1 scene_scale) [0..<N]),
          dev_acc = cudaMalloc dev 2 N\<rparr>"
    by simp
  with s show ?thesis by simp
qed

text \<open>
  Claim C3. Scene initialization is deterministic. Each of the two initialisation
  kernels leaves the same arrays whatever the order in which the threads run
  (any list of distinct thread indices that covers the bodies) and whatever the
  arrays held before; two runs of \<open>initSimulation\<close> with the same inputs, on devices
  that differ in what fresh memory holds, end with equal position and velocity
  arrays; and the values of body \<open>i\<close> are \<open>randomPos draws 1 scene_scale i\<close> and the
  \<open>circularVel\<close> of it, which mention the index and the seed tag but no other body.
  Equality of reals stands for bit-identity of floats.
\<close>

theorem initSimulation_deterministic:
  "(distinct sched \<and> {..<N} \<subseteq> set sched \<and> distinct sched' \<and> {..<N} \<subseteq> set sched'
      \<and> length arr = N \<and> length arr' = N \<longrightarrow>
      launch_sched sched (kernGenerateRandomPosArray draws time N scale mass) arr =
      launch_sched sched' (kernGenerateRandomPosArray draws time N scale mass) arr')
   \<and> (distinct sched \<and> {..<N} \<subseteq> set sched \<and> distinct sched' \<and> {..<N} \<subseteq> set sched'
      \<and> length arr = N \<and> length arr' = N \<and> length pos = N \<longrightarrow>
      launch_sched sched (kernGenerateCircularVelArray G EPSILON time N) (arr, pos) =
      launch_sched sched' (kernGenerateCircularVelArray G EPSILON time N) (arr', pos))
   \<and> (initSimulation dev draws G EPSILON N = Inr s
      \<and> initSimulation dev' draws G EPSILON N = Inr s' \<longrightarrow>
      dev_pos s = dev_pos s' \<and> dev_vel s = dev_vel s')
   \<and> (initSimulation dev draws G EPSILON N = Inr s \<longrightarrow>
      (\<forall>i<N. dev_pos s ! i = randomPos draws 1 scene_scale i
            \<and> dev_vel s ! i = circularVel G EPSILON (randomPos draws 1 scene_scale i)))"
proof (intro conjI impI allI)
  assume "distinct sched \<and> {..<N} \<subseteq> set sched \<and> distinct sched' \<and> {..<N} \<subseteq> set sched'
      \<and> length arr = N \<and> length arr' = N"
  then show "launch_sched sched (kernGenerateRandomPosArray draws time N scale mass) arr =
      launch_sched sched' (kernGenerateRandomPosArray draws time N scale mass) arr'"
    by (simp add: kernGenerateRandomPosArray_sched)
next
  assume "distinct sched \<and> {..<N} \<subseteq> set sched \<and> distinct sched' \<and> {..<N} \<subseteq> set sched'
      \<and> length arr = N \<and> length arr' = N \<and> length pos = N"
  then show "launch_sched sched (kernGenerateCircularVelArray G EPSILON time N) (arr, pos) =
      launch_sched sched' (kernGenerateCircularVelArray G EPSILON time N) (arr', pos)"
    by (simp add: kernGenerateCircularVelArray_sched)
next
  assume "initSimulation dev draws G EPSILON N = Inr s
      \<and> initSimulation dev' draws G EPSILON N = Inr s'"
  then have a: "initSimulation dev draws G EPSILON N = Inr s"
    and b: "initSimulation dev' draws G EPSILON N = Inr s'"
    by simp_all
  from initSimulation_Inr(2) [OF a] initSimulation_Inr(2) [OF b]
  show "dev_pos s = dev_pos s'" by simp
  with initSimulation_Inr(3) [OF a] initSimulation_Inr(3) [OF b]
  show "dev_vel s = dev_vel s'" by simp
next
  fix i
  assume a: "initSimulation dev draws G EPSILON N = Inr s" and i: "i < N"
  from initSimulation_Inr(2) [OF a] i
  show p: "dev_pos s ! i = randomPos draws 1 scene_scale i"
    by simp
  from initSimulation_Inr(2,3) [OF a] i
  show "dev_vel s ! i = circularVel G EPSILON (randomPos draws 1 scene_scale i)"
    by simp
qed

lemma randomPos_example:
  "randomPos (draws_const (Vec3 (3/5) (4/5) (1/2))) t 100 i = Vec3 60 80 5"
proof -
  have "(3/5) * (3/5) + (4/5) * (4/5) = (1::real)"
    by simp
  then show ?thesis
    by (simp add: randomPos_def generateRandomVec3_def draws_const_def Let_def)
qed

theorem initSimulation_deterministic_witness:
  "distinct [0, 1::nat] \<and> {..<2} \<subseteq> set [0, 1::nat]
   \<and> distinct [1, 0, 2::nat] \<and> {..<2} \<subseteq> set [1, 0, 2::nat]
   \<and> length [Vec3 0 0 0, Vec3 0 0 0] = 2 \<and> length [Vec3 1 1 1, Vec3 2 2 2] = 2
   \<and> launch_sched [0, 1]
        (kernGenerateRandomPosArray (draws_const (Vec3 (3/5) (4/5) (1/2))) 1 2 100 planetMass)
        [Vec3 0 0 0, Vec3 0 0 0] =
      launch_sched [1, 0, 2]
        (kernGenerateRandomPosArray (draws_const (Vec3 (3/5) (4/5) (1/2))) 1 2 100 planetMass)
        [Vec3 1 1 1, Vec3 2 2 2]
   \<and> length [Vec3 60 80 5, Vec3 60 80 5] = 2
   \<and> launch_sched [0, 1] (kernGenerateCircularVelArray 1 1 2 2)
        ([Vec3 0 0 0, Vec3 0 0 0], [Vec3 60 80 5, Vec3 60 80 5]) =
      launch_sched [1, 0, 2] (kernGenerateCircularVelArray 1 1 2 2)
        ([Vec3 1 1 1, Vec3 2 2 2], [Vec3 60 80 5, Vec3 60 80 5])
   \<and> initSimulation dev_ok (draws_const (Vec3 (3/5) (4/5) (1/2))) 1 1 2 =
        Inr \<lparr>numObjects = 2, dev_pos = [Vec3 60 80 5, Vec3 60 80 5],
             dev_vel = [circularVel 1 1 (Vec3 60 80 5), circularVel 1 1 (Vec3 60 80 5)],
             dev_acc = [Vec3 0 0 0, Vec3 0 0 0]\<rparr>
   \<and> initSimulation dev_dirty (draws_const (Vec3 (3/5) (4/5) (1/2))) 1 1 2 =
        Inr \<lparr>numObjects = 2, dev_pos = [Vec3 60 80 5, Vec3 60 80 5],
             dev_vel = [circularVel 1 1 (Vec3 60 80 5), circularVel 1 1 (Vec3 60 80 5)],
             dev_acc = [Vec3 1 2 3, Vec3 1 2 3]\<rparr>
   \<and> [Vec3 60 80 5, Vec3 60 80 5] ! 1 =
          randomPos (draws_const (Vec3 (3/5) (4/5) (1/2))) 1 scene_scale 1"
proof -
  let ?d = "draws_const (Vec3 (3/5) (4/5) (1/2))"
  have two: "[0..<2] = [0, 1]"
    by (simp add: upt_rec)
  have h1: "distinct [0, 1::nat] \<and> {..<2} \<subseteq> set [0, 1::nat]
      \<and> distinct [1, 0, 2::nat] \<and> {..<2} \<subseteq> set [1, 0, 2::nat]
      \<and> length [Vec3 0 0 0, Vec3 0 0 0] = 2 \<and> length [Vec3 1 1 1, Vec3 2 2 2] = 2"
    by auto
  have h2: "length [Vec3 60 80 5, Vec3 60 80 5] = 2"
    by simp
  have a: "initSimulation dev_ok ?d 1 1 2 =
        Inr \<lparr>numObjects = 2, dev_pos = [Vec3 60 80 5, Vec3 60 80 5],
             dev_vel = [circularVel 1 1 (Vec3 60 80 5), circularVel 1 1 (Vec3 60 80 5)],
             dev_acc = [Vec3 0 0 0, Vec3 0 0 0]\<rparr>"
    by (subst initSimulation_no_failure)
       (simp_all add: dev_ok_def cudaMalloc_def two scene_scale_def randomPos_example)
  have b: "initSimulation dev_dirty ?d 1 1 2 =
        Inr \<lparr>numObjects = 2, dev_pos = [Vec3 60 80 5, Vec3 60 80 5],
             dev_vel = [circularVel 1 1 (Vec3 60 80 5), circularVel 1 1 (Vec3 60 80 5)],
             dev_acc = [Vec3 1 2 3, Vec3 1 2 3]\<rparr>"
    by (subst initSimulation_no_failure)
       (simp_all add: dev_dirty_def cudaMalloc_def two scene_scale_def randomPos_example)
  note t = initSimulation_deterministic [where N = 2 and sched = "[0, 1]" and sched' = "[1, 0, 2]"
      and arr = "[Vec3 0 0 0, Vec3 0 0 0]" and arr' = "[Vec3 1 1 1, Vec3 2 2 2]"
      and draws = ?d and G = 1 and EPSILON = 1 and dev = dev_ok and dev' = dev_dirty
      and pos = "[Vec3 60 80 5, Vec3 60 80 5]"]
  from t [where time = 1 and scale = 100 and mass = planetMass] h1
  have c1: "launch_sched [0, 1] (kernGenerateRandomPosArray ?d 1 2 100 planetMass)
        [Vec3 0 0 0, Vec3 0 0 0] =
      launch_sched [1, 0, 2] (kernGenerateRandomPosArray ?d 1 2 100 planetMass)
        [Vec3 1 1 1, Vec3 2 2 2]"
    by blast
  from t [where time = 2] h1 h2
  have c2: "launch_sched [0, 1] (kernGenerateCircularVelArray 1 1 2 2)
        ([Vec3 0 0 0, Vec3 0 0 0], [Vec3 60 80 5, Vec3 60 80 5]) =
      launch_sched [1, 0, 2] (kernGenerateCircularVelArray 1 1 2 2)
        ([Vec3 1 1 1, Vec3 2 2 2], [Vec3 60 80 5, Vec3 60 80 5])"
    by blast
  let ?s = "\<lparr>numObjects = 2, dev_pos = [Vec3 60 80 5, Vec3 60 80 5],
             dev_vel = [circularVel 1 1 (Vec3 60 80 5), circularVel 1 1 (Vec3 60 80 5)],
             dev_acc = [Vec3 0 0 0, Vec3 0 0 0]\<rparr>"
  from t [where s = ?s] a
  have "\<forall>i<2. dev_pos ?s ! i = randomPos ?d 1 scene_scale i
      \<and> dev_vel ?s ! i = circularVel 1 1 (randomPos ?d 1 scene_scale i)"
    by blast
  then have "dev_pos ?s ! 1 = randomPos ?d 1 scene_scale 1"
    by (rule allE [of _ 1]) simp
  then have c3: "[Vec3 60 80 5, Vec3 60 80 5] ! 1 = randomPos ?d 1 scene_scale 1"
    by simp
  from h1 h2 a b c1 c2 c3 show ?thesis
    by simp
qed

text \<open>
  Claim C9. The seed of body \<open>index\<close> is \<open>hash ((int) (index * time))\<close>, which is
  \<open>hash 0\<close> for index 0 whatever the time tag. So for any two time tags the random
  vector of body 0, the position written for it by the thread and by the whole launch
  are the same; the velocity kernel does not read its time tag at all.
\<close>

theorem body_zero_ignores_time:
  "generateRandomVec3 draws time 0 = draws (hash 0)
   \<and> randomPos draws ta scale 0 = randomPos draws tb scale 0
   \<and> kernGenerateRandomPosArray draws ta N scale mass 0 arr =
       kernGenerateRandomPosArray draws tb N scale mass 0 arr
   \<and> kernGenerateCircularVelArray G EPSILON ta N i m = kernGenerateCircularVelArray G EPSILON tb N i m
   \<and> (0 < N \<and> length arr = N \<longrightarrow>
        launch ((N + blockSize - 1) div blockSize) blockSize
          (kernGenerateRandomPosArray draws ta N scale mass) arr ! 0 =
        launch ((N + blockSize - 1) div blockSize) blockSize
          (kernGenerateRandomPosArray draws tb N scale mass) arr ! 0)"
proof (intro conjI impI)
  show g: "generateRandomVec3 draws time 0 = draws (hash 0)" for time
    by (simp add: generateRandomVec3_def float_to_int_def)
  show r: "randomPos draws ta scale 0 = randomPos draws tb scale 0" for ta tb
    by (simp add: randomPos_def g)
  show "kernGenerateRandomPosArray draws ta N scale mass 0 arr =
       kernGenerateRandomPosArray draws tb N scale mass 0 arr"
    by (simp add: kernGenerateRandomPosArray_thread r [of ta tb])
  show "kernGenerateCircularVelArray G EPSILON ta N i m = kernGenerateCircularVelArray G EPSILON tb N i m"
    by (simp add: kernGenerateCircularVelArray_def)
  assume "0 < N \<and> length arr = N"
  then have N: "0 < N" and l: "length arr = N"
    by simp_all
  have "launch ((N + blockSize - 1) div blockSize) blockSize
          (kernGenerateRandomPosArray draws t N scale mass) arr ! 0 = randomPos draws t scale 0" for t
    unfolding launch_def using grid_sched [of N] l N
    by (subst kernGenerateRandomPosArray_sched) simp_all
  then show "launch ((N + blockSize - 1) div blockSize) blockSize
          (kernGenerateRandomPosArray draws ta N scale mass) arr ! 0 =
        launch ((N + blockSize - 1) div blockSize) blockSize
          (kernGenerateRandomPosArray draws tb N scale mass) arr ! 0"
    by (simp only: r [of ta tb])
qed

theorem body_zero_ignores_time_witness:
  "(0::nat) < 2 \<and> length [Vec3 0 0 0, Vec3 0 0 0] = 2
   \<and> generateRandomVec3 draws_seed 7 0 = draws_seed (hash 0)
   \<and> launch ((2 + blockSize - 1) div blockSize) blockSize
          (kernGenerateRandomPosArray draws_seed 1 2 100 planetMass) [Vec3 0 0 0, Vec3 0 0 0] ! 0 =
     launch ((2 + blockSize - 1) div blockSize) blockSize
          (kernGenerateRandomPosArray draws_seed 7 2 100 planetMass) [Vec3 0 0 0, Vec3 0 0 0] ! 0"
proof -
  have h: "(0::nat) < 2 \<and> length [Vec3 0 0 0, Vec3 0 0 0] = 2"
    by simp
  from body_zero_ignores_time [where draws = draws_seed and ta = 1 and tb = 7 and N = 2
      and arr = "[Vec3 0 0 0, Vec3 0 0 0]" and scale = 100 and mass = planetMass and time = 7] h
  show ?thesis by blast
qed

lemma sq_le_one: "\<bar>a\<bar> \<le> 1 \<Longrightarrow> a * a \<le> (1::real)"
  using abs_square_le_1 [of a] by (simp add: power2_eq_square)

lemma randomPos_bounds:
  assumes s: "0 \<le> scale"
    and a: "\<bar>vx rand\<bar> \<le> 1" and b: "\<bar>vy rand\<bar> \<le> 1" and c: "\<bar>vz rand\<bar> \<le> 1"
  defines "p \<equiv> Vec3 (scale * vx rand) (scale * vy rand)
      (1 / 10 * scale * sqrt (vx rand * vx rand + vy rand * vy rand)
         * vz rand)"
  shows "\<bar>vx p\<bar> \<le> scale" and "\<bar>vy p\<bar> \<le> scale"
    and "sqrt (vx p * vx p + vy p * vy p) \<le> scale * sqrt 2"
    and "vz p = 1 / 10 * sqrt (vx p * vx p + vy p * vy p) * vz rand"
    and "\<bar>vz p\<bar> \<le> 1 / 10 * sqrt (vx p * vx p + vy p * vy p)"
    and "glm_length p \<le> scale * sqrt (101 / 50)"
proof -
  let ?a = "vx rand" and ?b = "vy rand" and ?c = "vz rand"
  let ?q = "?a * ?a + ?b * ?b"
  let ?rho = "sqrt (vx p * vx p + vy p * vy p)"
  have q: "0 \<le> ?q" "?q \<le> 2"
    using sq_le_one [OF a] sq_le_one [OF b] by simp_all
  show "\<bar>vx p\<bar> \<le> scale"
    using s a by (simp add: p_def abs_mult mult_left_le)
  show "\<bar>vy p\<bar> \<le> scale"
    using s b by (simp add: p_def abs_mult mult_left_le)
  have "vx p * vx p + vy p * vy p = scale * scale * ?q"
    by (simp add: p_def algebra_simps)
  then have rho: "?rho = scale * sqrt ?q"
    using s by (simp add: real_sqrt_mult)
  have "sqrt ?q \<le> sqrt 2"
    using q by simp
  with s show rho2: "?rho \<le> scale * sqrt 2"
    unfolding rho by (simp add: mult_left_mono)
  show z: "vz p = 1 / 10 * ?rho * ?c"
    unfolding rho by (simp add: p_def)
  have rho0: "0 \<le> ?rho"
    unfolding rho using s q by simp
  have "\<bar>vz p\<bar> = 1 / 10 * ?rho * \<bar>?c\<bar>"
    unfolding z using rho0 by (simp add: abs_mult)
  also have "\<dots> \<le> 1 / 10 * ?rho * 1"
    using rho0 c by (intro mult_left_mono) simp_all
  finally show zb: "\<bar>vz p\<bar> \<le> 1 / 10 * ?rho"
    by simp
  have "vz p * vz p = \<bar>vz p\<bar> * \<bar>vz p\<bar>"
    by simp
  also have "\<dots> \<le> (1 / 10 * ?rho) * (1 / 10 * ?rho)"
    using zb by (intro mult_mono) simp_all
  also have "\<dots> = 1 / 100 * (vx p * vx p + vy p * vy p)"
    by (simp add: algebra_simps)
  finally have "glm_dot p p \<le> 101 / 100 * (vx p * vx p + vy p * vy p)"
    by (simp add: glm_dot_def)
  also have "\<dots> = 101 / 100 * (scale * scale * ?q)"
    by (simp add: p_def algebra_simps)
  also have "\<dots> \<le> 101 / 100 * (scale * scale * 2)"
    using q by (intro mult_left_mono) simp_all
  finally have "glm_dot p p \<le> scale * scale * (101 / 50)"
    by simp
  then have "sqrt (glm_dot p p) \<le> sqrt (scale * scale * (101 / 50))"
    by simp
  also have "\<dots> = scale * sqrt (101 / 50)"
  proof -
    have "sqrt (scale * scale * (101 / 50)) = sqrt (scale * scale) * sqrt (101 / 50)"
      by (rule real_sqrt_mult)
    with s show ?thesis by simp
  qed
  finally show "glm_length p \<le> scale * sqrt (101 / 50)"
    by (simp add: glm_length_def)
qed


text \<open>
  Claim C5, as the code has it. The kernel scales the first two draws by \<open>scale\<close>
  separately, so the planar part of a position lies in the square of half-side
  \<open>scale\<close>, not in the disc of radius \<open>scale\<close>. With every draw in \<open>[-1, 1]\<close>, after
  \<open>initSimulation\<close> each body has \<open>|x| \<le> scene_scale\<close> and \<open>|y| \<le> scene_scale\<close>, a planar
  radius of at most \<open>scene_scale * sqrt 2\<close>, a height \<open>z\<close> equal to a tenth of the planar
  radius times the third draw, and a distance from the origin between \<open>0\<close> and
  \<open>scene_scale * sqrt (101/50)\<close>.
\<close>

theorem initSimulation_position_bounds:
  assumes "initSimulation dev draws G EPSILON N = Inr s" and "i < N"
    and "\<forall>seed. \<bar>vx (draws seed)\<bar> \<le> 1 \<and> \<bar>vy (draws seed)\<bar> \<le> 1 \<and> \<bar>vz (draws seed)\<bar> \<le> 1"
  shows "\<bar>vx (dev_pos s ! i)\<bar> \<le> scene_scale
       \<and> \<bar>vy (dev_pos s ! i)\<bar> \<le> scene_scale
       \<and> sqrt (vx (dev_pos s ! i) * vx (dev_pos s ! i) + vy (dev_pos s ! i) * vy (dev_pos s ! i))
            \<le> scene_scale * sqrt 2
       \<and> vz (dev_pos s ! i) =
            1 / 10 * sqrt (vx (dev_pos s ! i) * vx (dev_pos s ! i) + vy (dev_pos s ! i) * vy (dev_pos s ! i))
              * vz (generateRandomVec3 draws 1 (int i))
       \<and> \<bar>vz (dev_pos s ! i)\<bar> \<le>
            1 / 10 * sqrt (vx (dev_pos s ! i) * vx (dev_pos s ! i) + vy (dev_pos s ! i) * vy (dev_pos s ! i))
       \<and> 0 \<le> glm_length (dev_pos s ! i)
       \<and> glm_length (dev_pos s ! i) \<le> scene_scale * sqrt (101 / 50)"
proof -
  let ?seed = "hash (word_of_int (float_to_int (real_of_int (int i) * real_of_int 1)))"
  have p: "dev_pos s ! i = Vec3 (scene_scale * vx (draws ?seed)) (scene_scale * vy (draws ?seed))
      (1 / 10 * scene_scale * sqrt (vx (draws ?seed) * vx (draws ?seed) + vy (draws ?seed) * vy (draws ?seed))
         * vz (draws ?seed))"
    using initSimulation_Inr(2) [OF assms(1)] assms(2)
    by (simp add: randomPos_def generateRandomVec3_def Let_def)
  have g: "generateRandomVec3 draws 1 (int i) = draws ?seed"
    by (simp add: generateRandomVec3_def)
  have s: "0 \<le> scene_scale"
    by (simp add: scene_scale_def)
  from assms(3) have b: "\<bar>vx (draws ?seed)\<bar> \<le> 1" "\<bar>vy (draws ?seed)\<bar> \<le> 1" "\<bar>vz (draws ?seed)\<bar> \<le> 1"
    by blast+
  from randomPos_bounds [OF s b] glm_length_nonneg [of "dev_pos s ! i"]
  show ?thesis
    unfolding p g by blast
qed

lemma randomPos_corner:
  "randomPos (draws_const (Vec3 (4/5) (4/5) 0)) t 100 i = Vec3 80 80 0"
  by (simp add: randomPos_def generateRandomVec3_def draws_const_def Let_def)

text \<open>
  The bound \<open>scale\<close> of claim C5 fails: with the draws \<open>(4/5, 4/5, 0)\<close> the only body is
  placed at \<open>(80, 80, 0)\<close>, at distance \<open>sqrt 12800 > 100 = scene_scale\<close> from the origin.
\<close>

theorem position_outside_radius_counterexample:
  "initSimulation dev_ok (draws_const (Vec3 (4/5) (4/5) 0)) G_sample EPSILON_sample 1 =
     Inr \<lparr>numObjects = 1, dev_pos = [Vec3 80 80 0],
          dev_vel = [circularVel G_sample EPSILON_sample (Vec3 80 80 0)],
          dev_acc = [Vec3 0 0 0]\<rparr>
   \<and> \<not> glm_length (Vec3 80 80 0) \<le> scene_scale"
proof
  show "initSimulation dev_ok (draws_const (Vec3 (4/5) (4/5) 0)) G_sample EPSILON_sample 1 =
     Inr \<lparr>numObjects = 1, dev_pos = [Vec3 80 80 0],
          dev_vel = [circularVel G_sample EPSILON_sample (Vec3 80 80 0)],
          dev_acc = [Vec3 0 0 0]\<rparr>"
    by (subst initSimulation_no_failure)
       (simp_all add: dev_ok_def cudaMalloc_def scene_scale_def randomPos_corner)
  have "(100::real)\<^sup>2 < 12800"
    by simp
  then have "100 < sqrt (12800::real)"
    by (rule real_less_rsqrt)
  then show "\<not> glm_length (Vec3 80 80 0) \<le> scene_scale"
    by (simp add: glm_length_def glm_dot_def scene_scale_def)
qed

theorem initSimulation_position_bounds_witness:
  "initSimulation dev_ok (draws_const (Vec3 (3/5) (4/5) (1/2))) G_sample EPSILON_sample 1 =
     Inr \<lparr>numObjects = 1, dev_pos = [Vec3 60 80 5],
          dev_vel = [circularVel G_sample EPSILON_sample (Vec3 60 80 5)],
          dev_acc = [Vec3 0 0 0]\<rparr>
   \<and> (0::nat) < 1
   \<and> \<bar>vx (draws_const (Vec3 (3/5) (4/5) (1/2)) 0)\<bar> \<le> 1
   \<and> glm_length (Vec3 60 80 5) \<le> scene_scale * sqrt (101 / 50)"
proof -
  let ?s = "\<lparr>numObjects = 1, dev_pos = [Vec3 60 80 5],
          dev_vel = [circularVel G_sample EPSILON_sample (Vec3 60 80 5)],
          dev_acc = [Vec3 0 0 0]\<rparr>"
  have a: "initSimulation dev_ok (draws_const (Vec3 (3/5) (4/5) (1/2))) G_sample EPSILON_sample 1 = Inr ?s"
    by (subst initSimulation_no_failure)
       (simp_all add: dev_ok_def cudaMalloc_def scene_scale_def randomPos_example)
  have b: "(0::nat) < 1"
    by simp
  have c: "\<forall>seed. \<bar>vx (draws_const (Vec3 (3/5) (4/5) (1/2)) seed)\<bar> \<le> 1
      \<and> \<bar>vy (draws_const (Vec3 (3/5) (4/5) (1/2)) seed)\<bar> \<le> 1
      \<and> \<bar>vz (draws_const (Vec3 (3/5) (4/5) (1/2)) seed)\<bar> \<le> 1"
    by (simp add: draws_const_def)
  from initSimulation_position_bounds [OF a b c]
  have "glm_length (dev_pos ?s ! 0) \<le> scene_scale * sqrt (101 / 50)"
    by blast
  with a b c show ?thesis
    by simp
qed

lemma circularVel_closed:
  fixes G EPSILON :: real and p :: vec3
  assumes planar: "vx p \<noteq> 0 \<or> vy p \<noteq> 0" and E: "0 \<le> EPSILON"
  defines "rho \<equiv> sqrt (vx p * vx p + vy p * vy p)"
    and "s \<equiv> sqrt (G * starMass / (glm_length p + EPSILON))"
  shows "glm_normalize (glm_cross (sdiv p (glm_length p + EPSILON)) (Vec3 0 0 1)) =
           Vec3 (vy p / rho) (- vx p / rho) 0"
    and "circularVel G EPSILON p = Vec3 (s * (vy p / rho)) (s * (- vx p / rho)) 0"
    and "0 < rho" and "0 < glm_length p + EPSILON"
proof -
  let ?r = "glm_length p + EPSILON"
  have q: "0 < vx p * vx p + vy p * vy p"
    using planar by (metis add_pos_nonneg add_nonneg_pos zero_le_square not_real_square_gt_zero)
  then show rho: "0 < rho"
    by (simp add: rho_def)
  have "vx p * vx p + vy p * vy p \<le> glm_dot p p"
    by (simp add: glm_dot_def)
  with q have "0 < glm_dot p p"
    by linarith
  then have "0 < glm_length p"
    by (simp add: glm_length_def)
  with E show r: "0 < ?r"
    by simp
  have c: "glm_cross (sdiv p ?r) (Vec3 0 0 1) = Vec3 (vy p / ?r) (- vx p / ?r) 0"
    by (simp add: glm_cross_def sdiv_def)
  have "glm_dot (Vec3 (vy p / ?r) (- vx p / ?r) 0) (Vec3 (vy p / ?r) (- vx p / ?r) 0) =
      (vx p * vx p + vy p * vy p) / (?r * ?r)"
    by (simp add: glm_dot_def add_divide_distrib)
  then have "sqrt (glm_dot (Vec3 (vy p / ?r) (- vx p / ?r) 0) (Vec3 (vy p / ?r) (- vx p / ?r) 0)) =
      rho / ?r"
    using r by (simp add: rho_def real_sqrt_divide)
  then show n: "glm_normalize (glm_cross (sdiv p ?r) (Vec3 0 0 1)) = Vec3 (vy p / rho) (- vx p / rho) 0"
    unfolding c glm_normalize_def using r rho by (simp add: smult_def)
  have "Vec3 (vx p) (vy p) (vz p) = p"
    by simp
  then show "circularVel G EPSILON p = Vec3 (s * (vy p / rho)) (s * (- vx p / rho)) 0"
    unfolding circularVel_def Let_def s_def by (simp only: n vec3.sel) simp
qed

lemma planar_quotient:
  "(b / r) * (b / r) + (- a / r) * (- a / r) = (a * a + b * b) / (r * r)" for a b r :: real
  by (simp add: add_divide_distrib)

lemma circularVel_props:
  assumes planar: "vx p \<noteq> 0 \<or> vy p \<noteq> 0" and E: "0 \<le> EPSILON" and G: "0 \<le> G"
  shows "glm_length (circularVel G EPSILON p) = sqrt (G * starMass / (glm_length p + EPSILON))"
    and "glm_dot (circularVel G EPSILON p) p = 0"
    and "glm_dot (circularVel G EPSILON p) (Vec3 0 0 1) = 0"
    and "glm_length (glm_normalize (glm_cross (sdiv p (glm_length p + EPSILON)) (Vec3 0 0 1))) = 1"
proof -
  let ?rho = "sqrt (vx p * vx p + vy p * vy p)"
  let ?s = "sqrt (G * starMass / (glm_length p + EPSILON))"
  note cl = circularVel_closed [OF planar E]
  have rho2: "?rho * ?rho = vx p * vx p + vy p * vy p"
    by simp
  have q: "0 < vx p * vx p + vy p * vy p"
    using cl(3) by simp
  have "(vy p / ?rho) * (vy p / ?rho) + (- vx p / ?rho) * (- vx p / ?rho) =
      (vx p * vx p + vy p * vy p) / (?rho * ?rho)"
    by (rule planar_quotient)
  also have "\<dots> = (vx p * vx p + vy p * vy p) / (vx p * vx p + vy p * vy p)"
    by (simp only: rho2)
  also have "\<dots> = 1"
  proof -
    from q have "vx p * vx p + vy p * vy p \<noteq> 0"
      by linarith
    then show ?thesis
      by (rule divide_self)
  qed
  finally have unit: "(vy p / ?rho) * (vy p / ?rho) + (- vx p / ?rho) * (- vx p / ?rho) = 1" .
  have s0: "0 \<le> ?s"
    using G E cl(4) by (simp add: starMass_def)
  have "glm_dot (circularVel G EPSILON p) (circularVel G EPSILON p) =
      ?s * ?s * ((vy p / ?rho) * (vy p / ?rho) + (- vx p / ?rho) * (- vx p / ?rho))"
    unfolding cl(2) by (simp add: glm_dot_def algebra_simps)
  then have "glm_dot (circularVel G EPSILON p) (circularVel G EPSILON p) = ?s * ?s"
    by (simp only: unit mult_1_right)
  then have "glm_length (circularVel G EPSILON p) = sqrt (?s * ?s)"
    by (simp only: glm_length_def)
  also have "\<dots> = \<bar>?s\<bar>"
    by (rule real_sqrt_abs2)
  also have "\<dots> = ?s"
    using s0 by (rule abs_of_nonneg)
  finally show "glm_length (circularVel G EPSILON p) = ?s" .
  show "glm_dot (circularVel G EPSILON p) p = 0"
    unfolding cl(2) by (simp add: glm_dot_def)
  show "glm_dot (circularVel G EPSILON p) (Vec3 0 0 1) = 0"
    unfolding cl(2) by (simp add: glm_dot_def)
  have "glm_dot (Vec3 (vy p / ?rho) (- vx p / ?rho) 0) (Vec3 (vy p / ?rho) (- vx p / ?rho) 0) = 1"
    using unit by (simp add: glm_dot_def)
  then show "glm_length (glm_normalize (glm_cross (sdiv p (glm_length p + EPSILON)) (Vec3 0 0 1))) = 1"
    unfolding cl(1) by (simp add: glm_length_def)
qed


lemma circularVel_smult:
  "circularVel G EPSILON p =
     smult (sqrt (G * starMass / (glm_length p + EPSILON)))
       (glm_normalize (glm_cross (sdiv p (glm_length p + EPSILON)) (Vec3 0 0 1)))"
  by (simp add: circularVel_def Let_def smult_def)

text \<open>
  Claim C6, as the code has it. The speed is \<open>s = sqrt (G * starMass / r)\<close> where \<open>r\<close> is
  the length of the whole position vector, height included, plus \<open>EPSILON\<close>; it is not
  the planar distance. For a body that is not on the vertical axis, with \<open>G\<close> and
  \<open>EPSILON\<close> not negative, the velocity written by \<open>initSimulation\<close> is \<open>s\<close> times the
  normalized cross product of position over \<open>r\<close> with the vertical axis; that direction
  has length 1, so the velocity has magnitude \<open>s\<close>, and it is perpendicular to the
  position vector and to the vertical axis. The divisor \<open>r\<close> is positive. (On the
  vertical axis the source normalizes the zero vector.)
\<close>

theorem initSimulation_circular_velocity:
  assumes "initSimulation dev draws G EPSILON N = Inr s" and "i < N"
    and "0 \<le> G" and "0 \<le> EPSILON"
    and "vx (dev_pos s ! i) \<noteq> 0 \<or> vy (dev_pos s ! i) \<noteq> 0"
  shows "dev_vel s ! i =
           smult (sqrt (G * starMass / (glm_length (dev_pos s ! i) + EPSILON)))
             (glm_normalize (glm_cross (sdiv (dev_pos s ! i) (glm_length (dev_pos s ! i) + EPSILON))
                (Vec3 0 0 1)))
       \<and> 0 < glm_length (dev_pos s ! i) + EPSILON
       \<and> glm_length (glm_normalize (glm_cross (sdiv (dev_pos s ! i)
             (glm_length (dev_pos s ! i) + EPSILON)) (Vec3 0 0 1))) = 1
       \<and> glm_length (dev_vel s ! i) = sqrt (G * starMass / (glm_length (dev_pos s ! i) + EPSILON))
       \<and> glm_dot (dev_vel s ! i) (dev_pos s ! i) = 0
       \<and> glm_dot (dev_vel s ! i) (Vec3 0 0 1) = 0"
proof -
  let ?p = "dev_pos s ! i"
  from initSimulation_Inr(2) [OF assms(1)] assms(2) have "i < length (dev_pos s)"
    by simp
  with initSimulation_Inr(3) [OF assms(1)] have v: "dev_vel s ! i = circularVel G EPSILON ?p"
    by simp
  note props = circularVel_props [OF assms(5,4,3)]
  note r = circularVel_closed(4) [OF assms(5,4)]
  from props r show ?thesis
    unfolding v by (simp add: circularVel_smult [symmetric])
qed

lemma sqrt_10025: "100 < sqrt (10025::real)"
proof -
  have "(100::real)\<^sup>2 < 10025"
    by simp
  then show ?thesis
    by (rule real_less_rsqrt)
qed

lemma sqrt_10000: "sqrt (60 * 60 + 80 * 80) = (100::real)"
proof -
  have "sqrt (100 * 100) = \<bar>100::real\<bar>"
    by (rule real_sqrt_abs2)
  then show ?thesis
    by simp
qed

text \<open>
  The planar distance of claim C6 fails: with the draws \<open>(3/5, 4/5, 1/2)\<close> the body is
  at \<open>(60, 80, 5)\<close>, its planar distance is \<open>100\<close> and its distance is \<open>sqrt 10025\<close>, and the
  magnitude of its velocity is not \<open>sqrt (G * starMass / (100 + EPSILON))\<close>.
\<close>

theorem velocity_uses_spatial_distance_counterexample:
  "initSimulation dev_ok (draws_const (Vec3 (3/5) (4/5) (1/2))) G_sample EPSILON_sample 1 =
     Inr \<lparr>numObjects = 1, dev_pos = [Vec3 60 80 5],
          dev_vel = [circularVel G_sample EPSILON_sample (Vec3 60 80 5)],
          dev_acc = [Vec3 0 0 0]\<rparr>
   \<and> glm_length (circularVel G_sample EPSILON_sample (Vec3 60 80 5)) \<noteq>
       sqrt (G_sample * starMass / (sqrt (60 * 60 + 80 * 80) + EPSILON_sample))"
proof
  show "initSimulation dev_ok (draws_const (Vec3 (3/5) (4/5) (1/2))) G_sample EPSILON_sample 1 =
     Inr \<lparr>numObjects = 1, dev_pos = [Vec3 60 80 5],
          dev_vel = [circularVel G_sample EPSILON_sample (Vec3 60 80 5)],
          dev_acc = [Vec3 0 0 0]\<rparr>"
    by (subst initSimulation_no_failure)
       (simp_all add: dev_ok_def cudaMalloc_def scene_scale_def randomPos_example)
  have len: "glm_length (Vec3 60 80 5) = sqrt 10025"
    by (simp add: glm_length_def glm_dot_def)
  have "glm_length (circularVel G_sample EPSILON_sample (Vec3 60 80 5)) =
      sqrt (G_sample * starMass / (glm_length (Vec3 60 80 5) + EPSILON_sample))"
    by (rule circularVel_props(1)) (simp_all add: G_sample_def EPSILON_sample_def)
  then have code: "glm_length (circularVel G_sample EPSILON_sample (Vec3 60 80 5)) =
      sqrt (G_sample * starMass / (sqrt 10025 + EPSILON_sample))"
    by (simp only: len)
  have gm: "0 < G_sample * starMass"
    by (simp add: G_sample_def starMass_def)
  have e: "0 < EPSILON_sample"
    by (simp add: EPSILON_sample_def)
  have "G_sample * starMass / (sqrt 10025 + EPSILON_sample) <
      G_sample * starMass / (100 + EPSILON_sample)"
    using sqrt_10025 gm e by (intro divide_strict_left_mono) (simp_all add: mult_pos_pos)
  then have "sqrt (G_sample * starMass / (sqrt 10025 + EPSILON_sample)) <
      sqrt (G_sample * starMass / (100 + EPSILON_sample))"
    by (rule real_sqrt_less_mono)
  then have "sqrt (G_sample * starMass / (sqrt 10025 + EPSILON_sample)) \<noteq>
      sqrt (G_sample * starMass / (100 + EPSILON_sample))"
    by (rule less_imp_neq)
  then show "glm_length (circularVel G_sample EPSILON_sample (Vec3 60 80 5)) \<noteq>
       sqrt (G_sample * starMass / (sqrt (60 * 60 + 80 * 80) + EPSILON_sample))"
    unfolding code sqrt_10000 .
qed

theorem initSimulation_circular_velocity_witness:
  "initSimulation dev_ok (draws_const (Vec3 (3/5) (4/5) (1/2))) G_sample EPSILON_sample 1 =
     Inr \<lparr>numObjects = 1, dev_pos = [Vec3 60 80 5],
          dev_vel = [circularVel G_sample EPSILON_sample (Vec3 60 80 5)],
          dev_acc = [Vec3 0 0 0]\<rparr>
   \<and> (0::nat) < 1 \<and> 0 \<le> G_sample \<and> 0 \<le> EPSILON_sample \<and> vx (Vec3 60 80 5) = 60
   \<and> glm_length (circularVel G_sample EPSILON_sample (Vec3 60 80 5)) =
       sqrt (G_sample * starMass / (glm_length (Vec3 60 80 5) + EPSILON_sample))
   \<and> glm_dot (circularVel G_sample EPSILON_sample (Vec3 60 80 5)) (Vec3 60 80 5) = 0"
proof -
  let ?s = "\<lparr>numObjects = 1, dev_pos = [Vec3 60 80 5],
          dev_vel = [circularVel G_sample EPSILON_sample (Vec3 60 80 5)],
          dev_acc = [Vec3 0 0 0]\<rparr>"
  have a: "initSimulation dev_ok (draws_const (Vec3 (3/5) (4/5) (1/2))) G_sample EPSILON_sample 1 = Inr ?s"
    by (subst initSimulation_no_failure)
       (simp_all add: dev_ok_def cudaMalloc_def scene_scale_def randomPos_example)
  have b: "(0::nat) < 1" "0 \<le> G_sample" "0 \<le> EPSILON_sample"
    by (simp_all add: G_sample_def EPSILON_sample_def)
  have c: "vx (dev_pos ?s ! 0) \<noteq> 0 \<or> vy (dev_pos ?s ! 0) \<noteq> 0"
    by simp
  from initSimulation_circular_velocity [OF a b c]
  have "glm_length (dev_vel ?s ! 0) =
       sqrt (G_sample * starMass / (glm_length (dev_pos ?s ! 0) + EPSILON_sample))
     \<and> glm_dot (dev_vel ?s ! 0) (dev_pos ?s ! 0) = 0"
    by blast
  with a b show ?thesis
    by simp
qed

subsection \<open>Force evaluator over floats with infinities and NaN\<close>

lemma FLT_MAX_ge: "12 * (10 ^ 18 * 10 ^ 18) \<le> FLT_MAX" "2 * 10 ^ 18 \<le> FLT_MAX" "4 \<le> FLT_MAX"
  by (simp_all add: FLT_MAX_def)

lemma overflow_Fin: "\<bar>r\<bar> \<le> FLT_MAX \<Longrightarrow> overflow r = Fin r"
  by (auto simp: overflow_def)

lemma xadd_Fin: "\<bar>a + b\<bar> \<le> FLT_MAX \<Longrightarrow> xadd (Fin a) (Fin b) = Fin (a + b)"
  by (simp add: overflow_Fin)


lemma xmul_Fin: "\<bar>a * b\<bar> \<le> FLT_MAX \<Longrightarrow> xmul (Fin a) (Fin b) = Fin (a * b)"
  by (simp add: overflow_Fin)

lemma xdiv_Fin: "b \<noteq> 0 \<Longrightarrow> \<bar>a / b\<bar> \<le> FLT_MAX \<Longrightarrow> xdiv (Fin a) (Fin b) = Fin (a / b)"
  by (simp add: overflow_Fin)

lemma xsqrt_Fin: "0 \<le> a \<Longrightarrow> xsqrt (Fin a) = Fin (sqrt a)"
  by simp




lemma sq_le_dot:
  "vx d * vx d \<le> glm_dot d d" "vy d * vy d \<le> glm_dot d d" "vz d * vz d \<le> glm_dot d d"
  by (simp_all add: glm_dot_def)

lemma abs_le_length:
  "\<bar>vx d\<bar> \<le> sqrt (glm_dot d d)" "\<bar>vy d\<bar> \<le> sqrt (glm_dot d d)" "\<bar>vz d\<bar> \<le> sqrt (glm_dot d d)"
proof -
  have "\<bar>a\<bar> \<le> sqrt b" if "a * a \<le> b" for a b :: real
  proof -
    have "\<bar>a\<bar>\<^sup>2 \<le> b"
      using that by (simp add: power2_eq_square)
    then show ?thesis
      by (rule real_le_rsqrt)
  qed
  then show "\<bar>vx d\<bar> \<le> sqrt (glm_dot d d)" "\<bar>vy d\<bar> \<le> sqrt (glm_dot d d)"
    "\<bar>vz d\<bar> \<le> sqrt (glm_dot d d)"
    by (simp_all add: sq_le_dot)
qed

lemma glm_dot_x_fin:
  assumes "glm_dot d d \<le> FLT_MAX"
  shows "glm_dot_x (fin_vec d) (fin_vec d) = Fin (glm_dot d d)"
proof -
  have x: "\<bar>vx d * vx d\<bar> \<le> FLT_MAX" and y: "\<bar>vy d * vy d\<bar> \<le> FLT_MAX"
    and z: "\<bar>vz d * vz d\<bar> \<le> FLT_MAX"
    using assms sq_le_dot [of d] by simp_all
  have xy: "\<bar>vx d * vx d + vy d * vy d\<bar> \<le> FLT_MAX"
  proof -
    have "vx d * vx d + vy d * vy d \<le> glm_dot d d"
      by (simp add: glm_dot_def)
    with assms show ?thesis by simp
  qed
  have xyz: "\<bar>vx d * vx d + vy d * vy d + vz d * vz d\<bar> \<le> FLT_MAX"
    using assms by (simp add: glm_dot_def)
  show ?thesis
    unfolding glm_dot_x_def fin_vec_def xvec3.sel
    by (simp only: xmul_Fin [OF x] xmul_Fin [OF y] xmul_Fin [OF z] xadd_Fin [OF xy] xadd_Fin [OF xyz]
        glm_dot_def)
qed




lemma glm_normalize_x_zero:
  "glm_normalize_x (XVec3 (Fin 0) (Fin 0) (Fin 0)) = XVec3 NaN NaN NaN"
  by (simp add: glm_normalize_x_def glm_inversesqrt_x_def glm_dot_x_def xvscale_def
      overflow_def FLT_MAX_def signed_inf_def)

lemma glm_normalize_x_fin:
  assumes "0 < glm_dot v v" and "glm_dot v v \<le> FLT_MAX" and "1 / sqrt (glm_dot v v) \<le> FLT_MAX"
  shows "glm_normalize_x (fin_vec v) = fin_vec (glm_normalize v)"
proof -
  let ?D = "glm_dot v v"
  have l0: "sqrt ?D \<noteq> 0" "0 < sqrt ?D"
    using assms(1) by simp_all
  then have "\<bar>1 / sqrt ?D\<bar> \<le> FLT_MAX"
    using assms(3) by simp
  moreover have sq: "xsqrt (Fin ?D) = Fin (sqrt ?D)"
    using assms(1) by (intro xsqrt_Fin) simp
  ultimately have inv: "glm_inversesqrt_x (Fin ?D) = Fin (1 / sqrt ?D)"
    unfolding glm_inversesqrt_x_def sq using l0(1) by (intro xdiv_Fin)
  have comp: "xmul (Fin a) (Fin (1 / sqrt ?D)) = Fin (1 / sqrt ?D * a)" if "\<bar>a\<bar> \<le> sqrt ?D" for a
  proof -
    have "\<bar>a * (1 / sqrt ?D)\<bar> = \<bar>a\<bar> / sqrt ?D"
      using l0(2) by (simp add: abs_mult)
    also have "\<dots> \<le> 1"
      using l0(2) that by simp
    finally have "\<bar>a * (1 / sqrt ?D)\<bar> \<le> FLT_MAX"
      using FLT_MAX_ge(3) by linarith
    then have "xmul (Fin a) (Fin (1 / sqrt ?D)) = Fin (a * (1 / sqrt ?D))"
      by (rule xmul_Fin)
    then show ?thesis
      by (simp add: mult.commute)
  qed
  have "glm_normalize_x (fin_vec v) = xvscale (fin_vec v) (Fin (1 / sqrt ?D))"
    by (simp only: glm_normalize_x_def glm_dot_x_fin [OF assms(2)] inv)
  also have "\<dots> = fin_vec (glm_normalize v)"
    unfolding xvscale_def fin_vec_def xvec3.sel glm_normalize_def smult_def vec3.sel
    by (simp only: comp [OF abs_le_length(1)] comp [OF abs_le_length(2)] comp [OF abs_le_length(3)])
  finally show ?thesis .
qed
























end
